theory Spec2Isabelle
  imports Main
begin

section \<open>Rules and enumerations (game/rules.py)\<close>

datatype Role = VILLAGER | DOCTOR | SHERIFF | MAFIA

datatype Phase = NIGHT | DAY_DISCUSSION | DAY_VOTE

text \<open>The value strings of the two string enums.\<close>

fun role_value :: "Role \<Rightarrow> string" where
  "role_value VILLAGER = ''villager''"
| "role_value DOCTOR = ''doctor''"
| "role_value SHERIFF = ''sheriff''"
| "role_value MAFIA = ''mafia''"

fun phase_value :: "Phase \<Rightarrow> string" where
  "phase_value NIGHT = ''night''"
| "phase_value DAY_DISCUSSION = ''day_discussion''"
| "phase_value DAY_VOTE = ''day_vote''"

definition PHASE_ORDER :: "Phase list" where
  "PHASE_ORDER = [NIGHT, DAY_DISCUSSION, DAY_VOTE]"

definition MIN_PLAYERS :: int where
  "MIN_PLAYERS = 4"

section \<open>Python values used by the engine\<close>

text \<open>
  \<open>str(n)\<close> for a Python integer: decimal digits, a leading minus sign for a negative
  number.
\<close>

definition digit_char :: "nat \<Rightarrow> char" where
  "digit_char d = ''0123456789'' ! d"

function str_nat :: "nat \<Rightarrow> string" where
  "str_nat n = (if n < 10 then [digit_char n] else str_nat (n div 10) @ [digit_char (n mod 10)])"
  by pat_completeness auto
termination
  by (relation "measure (\<lambda>n. n)") auto

definition str_int :: "int \<Rightarrow> string" where
  "str_int i = (if i < 0 then CHR ''-'' # str_nat (nat (- i)) else str_nat (nat i))"

text \<open>
  Truth value of an \<open>Optional[str]\<close> in a condition: \<open>None\<close> and the empty string are
  false.
\<close>

fun truthy :: "string option \<Rightarrow> bool" where
  "truthy None = False"
| "truthy (Some s) = (s \<noteq> [])"

text \<open>\<open>len(xs)\<close> as a Python integer.\<close>

definition len :: "'a list \<Rightarrow> int" where
  "len xs = int (length xs)"

section \<open>State types (game/state.py)\<close>

record Player =
  pid :: string
  name :: string
  role :: Role
  alive :: bool

datatype EventKind =
  NIGHT_KILL | NIGHT_PROTECT | NIGHT_CHECK | DISCUSSION | VOTE | ELIMINATED | GAME_START
  | PHASE_CHANGE

text \<open>
  The \<open>extra\<close> dictionary of an event maps a key to a string or to \<open>None\<close>; it is kept as
  an association list.
\<close>

record Event =
  kind :: EventKind
  e_round_index :: int
  e_phase :: Phase
  message :: string
  e_player_id :: "string option"
  e_target_id :: "string option"
  extra :: "(string \<times> string option) list option"

record DiscussionMessage =
  d_player_id :: string
  d_player_name :: string
  d_statement :: string
  d_round_index :: int

record VoteRecord =
  voter_id :: string
  v_target_id :: string
  reason :: string
  v_round_index :: int

record MafiaDiscussionMessage =
  m_player_id :: string
  m_player_name :: string
  m_statement :: string
  m_round_index :: int

record NightReasoningRecord =
  n_round_index :: int
  n_role :: string
  n_player_id :: string
  n_player_name :: string
  n_target_id :: string
  n_target_name :: string
  n_reason :: string

record NightActions =
  mafia_target_id :: "string option"
  doctor_target_id :: "string option"
  sheriff_target_id :: "string option"

record GameState =
  game_id :: string
  players :: "Player list"
  round_index :: int
  phase :: Phase
  events :: "Event list"
  discussion :: "DiscussionMessage list"
  vote_records :: "VoteRecord list"
  round_summaries :: "string list"
  discussion_order_index :: int
  discussion_order :: "string list"
  vote_order :: "string list"
  vote_order_index :: int
  mafia_discussion :: "MafiaDiscussionMessage list"
  night_reasoning :: "NightReasoningRecord list"
  game_seed :: "int option"
  started :: bool

definition get_alive_players :: "GameState \<Rightarrow> Player list" where
  "get_alive_players s = filter alive (players s)"

definition get_player :: "GameState \<Rightarrow> string \<Rightarrow> Player option" where
  "get_player s x = find (\<lambda>p. pid p = x) (players s)"

definition get_players_by_role :: "GameState \<Rightarrow> Role \<Rightarrow> Player list" where
  "get_players_by_role s r = filter (\<lambda>p. alive p \<and> role p = r) (players s)"

text \<open>An event with the dataclass defaults for the optional fields.\<close>

definition mk_event :: "EventKind \<Rightarrow> int \<Rightarrow> Phase \<Rightarrow> string \<Rightarrow> Event" where
  "mk_event k r ph msg =
     \<lparr>kind = k, e_round_index = r, e_phase = ph, message = msg, e_player_id = None,
      e_target_id = None, extra = None\<rparr>"

section \<open>Rule engine (game/engine.py)\<close>

datatype error = ValueError | ExternalError

text \<open>\<open>PHASE_ORDER.index(current)\<close>: every phase occurs in \<open>PHASE_ORDER\<close>.\<close>

fun phase_index :: "Phase \<Rightarrow> nat" where
  "phase_index NIGHT = 0"
| "phase_index DAY_DISCUSSION = 1"
| "phase_index DAY_VOTE = 2"

text \<open>The source's \<open>_next_phase\<close>.\<close>

definition next_phase_of :: "Phase \<Rightarrow> Phase" where
  "next_phase_of current = PHASE_ORDER ! ((phase_index current + 1) mod length PHASE_ORDER)"

definition emit :: "GameState \<Rightarrow> Event \<Rightarrow> GameState" where
  "emit s e = s\<lparr>events := events s @ [e]\<rparr>"

fun enumerate_players :: "nat \<Rightarrow> (string \<times> Role) list \<Rightarrow> Player list" where
  "enumerate_players i [] = []"
| "enumerate_players i ((n, r) # rest) =
     \<lparr>pid = ''player_'' @ str_int (int i), name = n, role = r, alive = True\<rparr>
       # enumerate_players (Suc i) rest"

definition start_game ::
  "string \<Rightarrow> string list \<Rightarrow> Role list \<Rightarrow> int option \<Rightarrow> error + GameState" where
  "start_game gid player_names role_assignments seed =
     (if length player_names \<noteq> length role_assignments then Inl ValueError
      else
        let ps = enumerate_players 0 (zip player_names role_assignments);
            state = \<lparr>game_id = gid, players = ps, round_index = 0, phase = NIGHT, events = [],
                     discussion = [], vote_records = [], round_summaries = [],
                     discussion_order_index = 0, discussion_order = [], vote_order = [],
                     vote_order_index = 0, mafia_discussion = [], night_reasoning = [],
                     game_seed = seed, started = True\<rparr>
        in Inr (emit state
             (mk_event GAME_START 0 NIGHT
                (''Game started with '' @ str_int (len ps) @ '' players.''))))"

text \<open>Marking one id dead: the loop that rebuilds the player list.\<close>

definition mark_dead :: "string \<Rightarrow> Player list \<Rightarrow> Player list" where
  "mark_dead x ps = map (\<lambda>p. if pid p = x then p\<lparr>alive := False\<rparr> else p) ps"

definition alive_ids :: "GameState \<Rightarrow> string set" where
  "alive_ids s = set (map pid (get_alive_players s))"

text \<open>The three validation steps of \<open>apply_night_actions\<close>, in the order of the source.\<close>

definition sanitize :: "string set \<Rightarrow> NightActions \<Rightarrow> NightActions" where
  "sanitize ids a =
     (let a1 = (if truthy (mafia_target_id a) \<and> the (mafia_target_id a) \<notin> ids
                then a\<lparr>mafia_target_id := None\<rparr> else a);
          a2 = (if truthy (doctor_target_id a1) \<and> the (doctor_target_id a1) \<notin> ids
                then a1\<lparr>doctor_target_id := None\<rparr> else a1);
          a3 = (if truthy (sheriff_target_id a2) \<and> the (sheriff_target_id a2) \<notin> ids
                then a2\<lparr>sheriff_target_id := None\<rparr> else a2)
      in a3)"

text \<open>
  The en dash of the day message, as its three UTF-8 bytes.
\<close>

definition en_dash :: string where
  "en_dash = [char_of (226::nat), char_of (128::nat), char_of (147::nat)]"

text \<open>
  \<open>random.Random(seed).shuffle\<close> is the standard library's; the engine takes it as the
  parameter \<open>shuffle\<close>, from the seed and the list to the shuffled list.
\<close>

definition apply_night_actions ::
  "(int \<Rightarrow> string list \<Rightarrow> string list) \<Rightarrow> GameState \<Rightarrow> NightActions \<Rightarrow> GameState" where
  "apply_night_actions shuffle state0 actions0 =
     (let actions = sanitize (alive_ids state0) actions0;
          killed_id = (if truthy (mafia_target_id actions)
                         \<and> doctor_target_id actions \<noteq> mafia_target_id actions
                       then mafia_target_id actions else None);
          s1 = (if truthy (mafia_target_id actions) then
                  (if doctor_target_id actions \<noteq> mafia_target_id actions then
                     emit state0
                       ((mk_event NIGHT_KILL (round_index state0) NIGHT
                           ''Mafia eliminated a player.'')\<lparr>e_target_id := killed_id\<rparr>)
                   else
                     emit state0
                       (mk_event NIGHT_PROTECT (round_index state0) NIGHT
                          ''Doctor protected the mafia target; no one died.''))
                else state0);
          s2 = (if truthy (doctor_target_id actions) \<and> \<not> truthy killed_id then
                  emit s1
                    ((mk_event NIGHT_PROTECT (round_index s1) NIGHT
                        ''Doctor protected a player.'')
                       \<lparr>e_target_id := doctor_target_id actions\<rparr>)
                else s1);
          s3 = (if truthy (sheriff_target_id actions) then
                  (let target = get_player s2 (the (sheriff_target_id actions));
                       alignment = (case target of
                                      None \<Rightarrow> ''town''
                                    | Some t \<Rightarrow> if role t = MAFIA then ''mafia'' else ''town'')
                   in emit s2
                        ((mk_event NIGHT_CHECK (round_index s2) NIGHT
                            (''Sheriff investigated; result is '' @ alignment @ ''.''))
                           \<lparr>e_target_id := sheriff_target_id actions,
                            extra := Some [(''alignment'', Some alignment)]\<rparr>))
                else s2);
          s4 = (if truthy killed_id then s3\<lparr>players := mark_dead (the killed_id) (players s3)\<rparr>
                else s3);
          s5 = s4\<lparr>phase := DAY_DISCUSSION\<rparr>;
          alive_after = get_alive_players s5;
          s6 = s5\<lparr>discussion_order_index := 0\<rparr>;
          order = map pid alive_after;
          seed = (case game_seed s6 of None \<Rightarrow> 0 | Some g \<Rightarrow> g) + round_index s6 * 1000;
          s7 = s6\<lparr>discussion_order := shuffle seed order\<rparr>
      in emit s7
           (mk_event PHASE_CHANGE (round_index s7) DAY_DISCUSSION
              (''Day '' @ str_int (round_index s7 + 1) @ '' '' @ en_dash
                 @ '' discussion phase.'')))"

definition add_mafia_discussion_message ::
  "GameState \<Rightarrow> string \<Rightarrow> string \<Rightarrow> string \<Rightarrow> GameState" where
  "add_mafia_discussion_message s player_id player_name statement =
     s\<lparr>mafia_discussion := mafia_discussion s @
         [\<lparr>m_player_id = player_id, m_player_name = player_name, m_statement = statement,
           m_round_index = round_index s\<rparr>]\<rparr>"

definition add_night_reasoning ::
  "GameState \<Rightarrow> int \<Rightarrow> string \<Rightarrow> string \<Rightarrow> string \<Rightarrow> string \<Rightarrow> string \<Rightarrow> string
     \<Rightarrow> GameState" where
  "add_night_reasoning s r rl player_id player_name target_id target_name rsn =
     s\<lparr>night_reasoning := night_reasoning s @
         [\<lparr>n_round_index = r, n_role = rl, n_player_id = player_id,
           n_player_name = player_name, n_target_id = target_id,
           n_target_name = target_name, n_reason = rsn\<rparr>]\<rparr>"

definition add_discussion_message ::
  "GameState \<Rightarrow> string \<Rightarrow> string \<Rightarrow> string \<Rightarrow> GameState" where
  "add_discussion_message s player_id player_name statement =
     (let s1 = s\<lparr>discussion := discussion s @
                  [\<lparr>d_player_id = player_id, d_player_name = player_name,
                    d_statement = statement, d_round_index = round_index s\<rparr>]\<rparr>;
          current_idx = discussion_order_index s1
      in s1\<lparr>discussion_order_index := current_idx + 1\<rparr>)"

definition get_next_speaker :: "GameState \<Rightarrow> Player option" where
  "get_next_speaker s =
     (if phase s \<noteq> DAY_DISCUSSION then None
      else if discussion_order s = [] then None
      else let idx = discussion_order_index s in
        if idx \<ge> len (discussion_order s) then None
        else if idx \<ge> 0 then get_player s (discussion_order s ! nat idx)
        else if - idx \<le> len (discussion_order s)
          then get_player s (discussion_order s ! nat (len (discussion_order s) + idx))
        else None)"

definition append_discussion_speaker :: "GameState \<Rightarrow> string \<Rightarrow> GameState" where
  "append_discussion_speaker s player_id =
     s\<lparr>discussion_order := discussion_order s @ [player_id]\<rparr>"

definition discussion_done :: "GameState \<Rightarrow> int option \<Rightarrow> bool" where
  "discussion_done s max_discussion_turns =
     (if discussion_order s = [] then True
      else let round_messages = filter (\<lambda>m. d_round_index m = round_index s) (discussion s) in
        if max_discussion_turns \<noteq> None \<and> len round_messages \<ge> the max_discussion_turns
          then True
        else discussion_order_index s \<ge> len (discussion_order s))"

subsection \<open>The vote threshold\<close>

text \<open>
  \<open>math.ceil(0.51 * n)\<close> is computed in IEEE double precision. The literal \<open>0.51\<close> is the
  double \<open>4593671619917906 / 2^53\<close>; a product is rounded to 53 significant bits, ties to
  even; the integer \<open>n\<close> is converted to a double the same way.
\<close>

function bit_length :: "nat \<Rightarrow> nat" where
  "bit_length n = (if n = 0 then 0 else Suc (bit_length (n div 2)))"
  by pat_completeness auto
termination
  by (relation "measure (\<lambda>n. n)") auto

declare bit_length.simps [simp del]

definition round_sig53 :: "nat \<Rightarrow> nat" where
  "round_sig53 p =
     (let b = bit_length p in
      if b \<le> 53 then p
      else let s = b - 53; q = p div 2 ^ s; r = p mod 2 ^ s; h = 2 ^ (s - 1)
           in (if r > h \<or> (r = h \<and> odd q) then q + 1 else q) * 2 ^ s)"

definition double_051 :: nat where
  "double_051 = 4593671619917906"

definition threshold_of :: "nat \<Rightarrow> int" where
  "threshold_of n =
     (let prod = round_sig53 (round_sig53 n * double_051)
      in int ((prod + (2 ^ 53 - 1)) div 2 ^ 53))"

subsection \<open>Voting\<close>

text \<open>The loop of \<open>apply_vote\<close> that records the votes of alive voters.\<close>

fun record_votes ::
  "string set \<Rightarrow> int \<Rightarrow> VoteRecord list \<Rightarrow> (string \<times> string \<times> string) list
     \<Rightarrow> VoteRecord list" where
  "record_votes ids r recs [] = recs"
| "record_votes ids r recs ((voter, target, rsn) # rest) =
     (if voter \<notin> ids then record_votes ids r recs rest
      else if target = ''abstain'' then
        record_votes ids r
          (recs @ [\<lparr>voter_id = voter, v_target_id = ''abstain'', reason = rsn,
                    v_round_index = r\<rparr>]) rest
      else if target \<in> ids \<and> voter \<noteq> target then
        record_votes ids r
          (recs @ [\<lparr>voter_id = voter, v_target_id = target, reason = rsn,
                    v_round_index = r\<rparr>]) rest
      else record_votes ids r recs rest)"

text \<open>
  \<open>collections.Counter\<close> over a sequence: a dictionary in insertion order, here an
  association list in the order of first occurrence.
\<close>

fun counter_add :: "string \<Rightarrow> (string \<times> nat) list \<Rightarrow> (string \<times> nat) list" where
  "counter_add k [] = [(k, 1)]"
| "counter_add k ((k', c) # rest) =
     (if k = k' then (k', c + 1) # rest else (k', c) # counter_add k rest)"

definition Counter :: "string list \<Rightarrow> (string \<times> nat) list" where
  "Counter ts = foldl (\<lambda>cs k. counter_add k cs) [] ts"

text \<open>The votes of the current round after recording, and the targets that are counted.\<close>

definition round_votes :: "GameState \<Rightarrow> (string \<times> string \<times> string) list \<Rightarrow> VoteRecord list" where
  "round_votes s votes =
     filter (\<lambda>v. v_round_index v = round_index s)
       (record_votes (alive_ids s) (round_index s) (vote_records s) votes)"

definition counted_targets :: "GameState \<Rightarrow> (string \<times> string \<times> string) list \<Rightarrow> string list" where
  "counted_targets s votes =
     map v_target_id (filter (\<lambda>v. v_target_id v \<noteq> ''abstain'') (round_votes s votes))"

definition eliminated_id :: "GameState \<Rightarrow> (string \<times> string \<times> string) list \<Rightarrow> string option" where
  "eliminated_id s votes =
     (let counts = Counter (counted_targets s votes);
          max_votes = (if counts = [] then 0 else Max (set (map snd counts)));
          tied = map fst (filter (\<lambda>(tid, c). c = max_votes) counts);
          threshold = threshold_of (card (alive_ids s))
      in (case tied of
            [x] \<Rightarrow> if int max_votes \<ge> threshold then Some x else None
          | _ \<Rightarrow> None))"

definition apply_vote :: "GameState \<Rightarrow> (string \<times> string \<times> string) list \<Rightarrow> GameState" where
  "apply_vote state0 votes =
     (let s1 = state0\<lparr>vote_records :=
                 record_votes (alive_ids state0) (round_index state0) (vote_records state0)
                   votes\<rparr>
      in if round_votes state0 votes = [] then
           (let s2 = s1\<lparr>phase := NIGHT\<rparr>;
                s3 = s2\<lparr>round_index := round_index s2 + 1\<rparr>;
                s4 = s3\<lparr>discussion_order_index := 0\<rparr>
            in emit s4 (mk_event PHASE_CHANGE (round_index s4) NIGHT ''No votes; night falls.''))
         else
           (let elim = eliminated_id state0 votes;
                s2 = (if truthy elim then
                        (let x = the elim;
                             target = get_player s1 x;
                             nm = (case target of None \<Rightarrow> x | Some t \<Rightarrow> name t);
                             s1' = emit s1
                               ((mk_event ELIMINATED (round_index s1) DAY_VOTE
                                   (nm @ '' was eliminated by vote.''))
                                  \<lparr>e_player_id := elim,
                                   extra := Some [(''role'',
                                      (case target of None \<Rightarrow> None
                                       | Some t \<Rightarrow> Some (role_value (role t))))]\<rparr>)
                         in s1'\<lparr>players := mark_dead x (players s1')\<rparr>)
                      else s1);
                s3 = s2\<lparr>phase := NIGHT\<rparr>;
                s4 = s3\<lparr>round_index := round_index s3 + 1\<rparr>;
                s5 = s4\<lparr>discussion_order_index := 0\<rparr>
            in emit s5
                 (mk_event PHASE_CHANGE (round_index s5) NIGHT
                    (''Night '' @ str_int (round_index s5 + 1) @ ''.''))))"

subsection \<open>Phase advance and the vote cursor\<close>

definition next_phase :: "GameState \<Rightarrow> GameState" where
  "next_phase s =
     (let s1 = s\<lparr>phase := next_phase_of (phase s)\<rparr>
      in if phase s1 = NIGHT then s1\<lparr>round_index := round_index s1 + 1\<rparr>
         else if phase s1 = DAY_VOTE then
           (s1\<lparr>vote_order := rev (discussion_order s1)\<rparr>)\<lparr>vote_order_index := 0\<rparr>
         else s1)"

definition get_next_voter :: "GameState \<Rightarrow> Player option" where
  "get_next_voter s =
     (if phase s \<noteq> DAY_VOTE then None
      else if vote_order s = [] then None
      else let idx = vote_order_index s in
        if idx \<ge> len (vote_order s) then None
        else if idx \<ge> 0 then get_player s (vote_order s ! nat idx)
        else if - idx \<le> len (vote_order s)
          then get_player s (vote_order s ! nat (len (vote_order s) + idx))
        else None)"

definition vote_phase_done :: "GameState \<Rightarrow> bool" where
  "vote_phase_done s =
     (if vote_order s = [] then True else vote_order_index s \<ge> len (vote_order s))"

definition advance_vote_order_index :: "GameState \<Rightarrow> GameState" where
  "advance_vote_order_index s = s\<lparr>vote_order_index := vote_order_index s + 1\<rparr>"

subsection \<open>Victory\<close>

definition mafia_alive :: "GameState \<Rightarrow> int" where
  "mafia_alive s = len (filter (\<lambda>p. role p = MAFIA) (get_alive_players s))"

definition town_alive :: "GameState \<Rightarrow> int" where
  "town_alive s = len (get_alive_players s) - mafia_alive s"

definition is_game_over :: "GameState \<Rightarrow> bool" where
  "is_game_over s = (mafia_alive s = 0 \<or> mafia_alive s \<ge> town_alive s)"

definition get_winner :: "GameState \<Rightarrow> string option" where
  "get_winner s =
     (if \<not> is_game_over s then None
      else if mafia_alive s > 0 then Some ''mafia'' else Some ''town'')"

section \<open>Orchestrator (agents/orchestrator.py)\<close>

text \<open>
  What an agent call \<open>run_sync\<close> can do: raise, return a result without output, or return
  an output.
\<close>

datatype 'a outcome = Raises | NoOutput | Output 'a

text \<open>
  The outside world of the orchestrator. \<open>setup_ok p\<close> tells whether building the model and
  the prompt for actor \<open>p\<close> returns; these calls stand before the \<open>try\<close> blocks, so a failure
  there leaves the step with an exception (\<open>ExternalError\<close>). The three agents receive the
  actor, the state the context is built from and, where there are any, the valid targets. A
  night response is \<open>(target_id, private_reason)\<close>, a discussion response
  \<open>(statement, request_another_turn)\<close>, a vote response \<open>(player_id, reason)\<close>.
  \<open>choice\<close> is \<open>random.choice\<close>, \<open>strip\<close> is \<open>str.strip\<close> and \<open>shuffle\<close> is the shuffle of
  \<open>apply_night_actions\<close>.
\<close>

record Env =
  setup_ok :: "string \<Rightarrow> bool"
  night_agent :: "string \<Rightarrow> string \<Rightarrow> GameState \<Rightarrow> string list \<Rightarrow> (string \<times> string option) outcome"
  discussion_agent :: "string \<Rightarrow> GameState \<Rightarrow> (string \<times> bool) outcome"
  vote_agent :: "string \<Rightarrow> GameState \<Rightarrow> string list \<Rightarrow> (string \<times> string) outcome"
  choice :: "string list \<Rightarrow> string"
  strip :: "string \<Rightarrow> string"
  shuffle :: "int \<Rightarrow> string list \<Rightarrow> string list"

text \<open>\<open>x or default\<close> for a string.\<close>

definition str_or :: "string \<Rightarrow> string \<Rightarrow> string" where
  "str_or x dflt = (if x = [] then dflt else x)"

text \<open>
  The private reason of a night result: \<open>None\<close> unless the call returned an output with a
  non-empty \<open>private_reason\<close>.
\<close>

fun private_reason_of :: "(string \<times> string option) outcome \<Rightarrow> string option" where
  "private_reason_of (Output (t, Some r)) = (if r = [] then None else Some r)"
| "private_reason_of _ = None"

text \<open>The name of the target of a night action, or the id when no such player exists.\<close>

definition target_name_of :: "GameState \<Rightarrow> string \<Rightarrow> string" where
  "target_name_of s t = (case get_player s t of Some p \<Rightarrow> name p | None \<Rightarrow> t)"

text \<open>
  The target chosen from a night result: the output's target when it is alive, a random
  valid target when the call raised and there are targets, nothing otherwise.
\<close>

definition night_target ::
  "Env \<Rightarrow> (string \<times> string option) outcome \<Rightarrow> string list \<Rightarrow> string list \<Rightarrow> string option" where
  "night_target env res alive_ids_list targets =
     (case res of
        Output (t, r) \<Rightarrow> if t \<in> set alive_ids_list then Some t else None
      | NoOutput \<Rightarrow> None
      | Raises \<Rightarrow> if targets \<noteq> [] then Some (choice env targets) else None)"

text \<open>The loop of the mafia deliberation: one message from every mafia player in turn.\<close>

fun mafia_deliberation :: "Env \<Rightarrow> GameState \<Rightarrow> Player list \<Rightarrow> error + GameState" where
  "mafia_deliberation env s [] = Inr s"
| "mafia_deliberation env s (m # ms) =
     (if \<not> setup_ok env (pid m) then Inl ExternalError
      else
        let stmt = (case discussion_agent env (pid m) s of
                      Output (statement, again) \<Rightarrow>
                        Some (str_or (strip env statement) ''I have no strong opinion.'')
                    | NoOutput \<Rightarrow> Some (str_or (strip env []) ''I have no strong opinion.'')
                    | Raises \<Rightarrow> None);
            s' = (case stmt of
                    Some t \<Rightarrow> add_mafia_discussion_message s (pid m) (name m) t
                  | None \<Rightarrow> add_mafia_discussion_message s (pid m) (name m)
                              ''I defer to the group.'')
        in mafia_deliberation env s' ms)"

text \<open>
  The three role blocks of \<open>run_night\<close>. Each returns the state, the target chosen and the
  human ids pending so far.
\<close>

definition night_mafia ::
  "Env \<Rightarrow> string set \<Rightarrow> string list \<Rightarrow> GameState \<Rightarrow> Player list
     \<Rightarrow> error + (GameState \<times> string option \<times> string list)" where
  "night_mafia env human alive_ids_list s mafia_players =
     (case mafia_players of
        [] \<Rightarrow> Inr (s, None, [])
      | first_mafia # _ \<Rightarrow>
          if pid first_mafia \<in> human then Inr (s, None, [pid first_mafia])
          else if \<not> setup_ok env (pid first_mafia) then Inl ExternalError
          else
            let targets0 = filter (\<lambda>i. i \<noteq> pid first_mafia) alive_ids_list;
                targets = (if targets0 = [] then alive_ids_list else targets0);
                res = night_agent env ''Mafia (choose who to eliminate)'' (pid first_mafia) s
                        targets;
                mafia_target = night_target env res alive_ids_list targets;
                s1 = (if length mafia_players = 1 then
                        (let target_name = (if truthy mafia_target
                                            then target_name_of s (the mafia_target)
                                            else ''someone'');
                             stmt = (case private_reason_of res of
                                       Some r \<Rightarrow> r
                                     | None \<Rightarrow> ''Eliminating '' @ target_name @ ''.'')
                         in add_mafia_discussion_message s (pid first_mafia) (name first_mafia)
                              stmt)
                      else s);
                s2 = (if truthy mafia_target then
                        add_night_reasoning s1 (round_index s1) ''Mafia'' (pid first_mafia)
                          (name first_mafia) (the mafia_target)
                          (target_name_of s1 (the mafia_target))
                          (case private_reason_of res of Some r \<Rightarrow> r | None \<Rightarrow> [])
                      else s1)
            in Inr (s2, mafia_target, []))"

definition night_doctor ::
  "Env \<Rightarrow> string set \<Rightarrow> string list \<Rightarrow> GameState \<Rightarrow> Player list
     \<Rightarrow> error + (GameState \<times> string option \<times> string list)" where
  "night_doctor env human alive_ids_list s doctor_players =
     (case doctor_players of
        [] \<Rightarrow> Inr (s, None, [])
      | doc # _ \<Rightarrow>
          if pid doc \<in> human then Inr (s, None, [pid doc])
          else if \<not> setup_ok env (pid doc) then Inl ExternalError
          else
            let targets0 = filter (\<lambda>i. i \<noteq> pid doc) alive_ids_list;
                targets = (if targets0 = [] then alive_ids_list else targets0);
                res = night_agent env ''Doctor (choose who to protect)'' (pid doc) s targets;
                doctor_target = night_target env res alive_ids_list targets;
                s1 = (if truthy doctor_target then
                        add_night_reasoning s (round_index s) ''Doctor'' (pid doc) (name doc)
                          (the doctor_target) (target_name_of s (the doctor_target))
                          (case private_reason_of res of Some r \<Rightarrow> r | None \<Rightarrow> [])
                      else s)
            in Inr (s1, doctor_target, []))"

definition night_sheriff ::
  "Env \<Rightarrow> string set \<Rightarrow> string list \<Rightarrow> GameState \<Rightarrow> Player list
     \<Rightarrow> error + (GameState \<times> string option \<times> string list)" where
  "night_sheriff env human alive_ids_list s sheriff_players =
     (case sheriff_players of
        [] \<Rightarrow> Inr (s, None, [])
      | sher # _ \<Rightarrow>
          if pid sher \<in> human then Inr (s, None, [pid sher])
          else if \<not> setup_ok env (pid sher) then Inl ExternalError
          else
            let targets = filter (\<lambda>i. i \<noteq> pid sher) alive_ids_list;
                res = (if targets \<noteq> [] then
                         night_agent env ''Sheriff (choose who to investigate)'' (pid sher) s
                           targets
                       else NoOutput);
                sheriff_target = (if targets \<noteq> [] then
                                    (case res of
                                       Raises \<Rightarrow> Some (choice env targets)
                                     | _ \<Rightarrow> night_target env res alive_ids_list targets)
                                  else None);
                s1 = (if truthy sheriff_target then
                        add_night_reasoning s (round_index s) ''Sheriff'' (pid sher) (name sher)
                          (the sheriff_target) (target_name_of s (the sheriff_target))
                          (case private_reason_of res of Some r \<Rightarrow> r | None \<Rightarrow> [])
                      else s)
            in Inr (s1, sheriff_target, []))"

text \<open>
  \<open>run_night\<close> returns the state, the dictionary of the targets chosen so far (empty, here
  \<open>None\<close>, once the night is resolved) and the pending human ids.
\<close>

definition run_night ::
  "Env \<Rightarrow> GameState \<Rightarrow> string set
     \<Rightarrow> error + (GameState \<times> NightActions option \<times> string list)" where
  "run_night env state human =
     (let alive_ids_list = map pid (get_alive_players state);
          mafia_players = get_players_by_role state MAFIA;
          doctor_players = get_players_by_role state DOCTOR;
          sheriff_players = get_players_by_role state SHERIFF
      in case (if length mafia_players > 1 \<and> \<not> (\<exists>m \<in> set mafia_players. pid m \<in> human)
               then mafia_deliberation env state mafia_players else Inr state) of
           Inl e \<Rightarrow> Inl e
         | Inr s0 \<Rightarrow>
       (case night_mafia env human alive_ids_list s0 mafia_players of
           Inl e \<Rightarrow> Inl e
         | Inr (s1, mafia_target, pending1) \<Rightarrow>
       (case night_doctor env human alive_ids_list s1 doctor_players of
           Inl e \<Rightarrow> Inl e
         | Inr (s2, doctor_target, pending2) \<Rightarrow>
       (case night_sheriff env human alive_ids_list s2 sheriff_players of
           Inl e \<Rightarrow> Inl e
         | Inr (s3, sheriff_target, pending3) \<Rightarrow>
           let pending_human = pending1 @ pending2 @ pending3;
               actions = \<lparr>mafia_target_id = mafia_target, doctor_target_id = doctor_target,
                          sheriff_target_id = sheriff_target\<rparr>
           in if pending_human \<noteq> [] then Inr (s3, Some actions, pending_human)
              else Inr (apply_night_actions (shuffle env) s3 actions, None, [])))))"

definition run_discussion_turn ::
  "Env \<Rightarrow> GameState \<Rightarrow> string set \<Rightarrow> int option \<Rightarrow> error + (GameState \<times> string option)" where
  "run_discussion_turn env state human max_discussion_turns =
     (case get_next_speaker state of
        None \<Rightarrow> Inr (state, None)
      | Some speaker \<Rightarrow>
          if pid speaker \<in> human then Inr (state, Some (pid speaker))
          else if \<not> setup_ok env (pid speaker) then Inl ExternalError
          else
            let res = discussion_agent env (pid speaker) state;
                statement = (case res of
                               Output (st, again) \<Rightarrow> str_or st ''I have nothing to add.''
                             | _ \<Rightarrow> ''I have nothing to add.'');
                request_another = (case res of Output (st, again) \<Rightarrow> again | _ \<Rightarrow> False);
                new_state = add_discussion_message state (pid speaker) (name speaker) statement;
                round_messages = filter (\<lambda>m. d_round_index m = round_index new_state)
                                   (discussion new_state)
            in if request_another \<and> max_discussion_turns \<noteq> None
                  \<and> len round_messages < the max_discussion_turns
               then Inr (append_discussion_speaker new_state (pid speaker), None)
               else Inr (new_state, None))"

definition run_vote_turn ::
  "Env \<Rightarrow> GameState \<Rightarrow> (string \<times> string \<times> string) list \<Rightarrow> string set
     \<Rightarrow> error + (GameState \<times> (string \<times> string \<times> string) list \<times> string list)" where
  "run_vote_turn env state votes_so_far human =
     (let alive_ids_list = map pid (get_alive_players state)
      in if vote_phase_done state then Inr (apply_vote state votes_so_far, [], [])
         else case get_next_voter state of
           None \<Rightarrow> Inr (apply_vote state votes_so_far, [], [])
         | Some next_voter \<Rightarrow>
             if pid next_voter \<in> human then Inr (state, votes_so_far, [pid next_voter])
             else if \<not> setup_ok env (pid next_voter) then Inl ExternalError
             else
               let valid_targets = filter (\<lambda>i. i \<noteq> pid next_voter) alive_ids_list
                                     @ [''abstain''];
                   votes_new =
                     (case vote_agent env (pid next_voter) state valid_targets of
                        Output (p, rsn) \<Rightarrow>
                          if p = ''abstain'' then
                            votes_so_far @ [(pid next_voter, ''abstain'', str_or rsn ''Abstain'')]
                          else if p \<noteq> pid next_voter \<and> p \<in> set alive_ids_list then
                            votes_so_far @ [(pid next_voter, p, rsn)]
                          else
                            votes_so_far @ [(pid next_voter, ''abstain'', str_or rsn ''Abstain'')]
                      | NoOutput \<Rightarrow> votes_so_far @ [(pid next_voter, ''abstain'', ''Abstain'')]
                      | Raises \<Rightarrow> votes_so_far @ [(pid next_voter, ''abstain'', ''Abstain'')]);
                   state_advanced = advance_vote_order_index state
               in if vote_phase_done state_advanced
                  then Inr (apply_vote state_advanced votes_new, [], [])
                  else Inr (state_advanced, votes_new, []))"

text \<open>The \<open>waiting_info\<close> dictionary of \<open>step_game\<close>; an absent key is \<open>None\<close>.\<close>

record WaitingInfo =
  waiting_for_human :: bool
  current_actor_id :: "string option"
  pending_human_night_ids :: "string list"
  pending_human_vote_ids :: "string list"
  night_actions :: "NightActions option"
  pending_votes :: "(string \<times> string \<times> string) list option"

definition step_game ::
  "Env \<Rightarrow> GameState \<Rightarrow> string set \<Rightarrow> int option \<Rightarrow> (string \<times> string \<times> string) list
     \<Rightarrow> error + (GameState \<times> WaitingInfo option)" where
  "step_game env state human max_discussion_turns pending =
     (if is_game_over state then Inr (state, None)
      else if phase state = NIGHT then
        (case run_night env state human of
           Inl e \<Rightarrow> Inl e
         | Inr (new_state, actions_dict, pending_night_ids) \<Rightarrow>
             if pending_night_ids \<noteq> [] then
               Inr (state,
                 Some \<lparr>waiting_for_human = True,
                       current_actor_id = Some (hd pending_night_ids),
                       pending_human_night_ids = pending_night_ids,
                       pending_human_vote_ids = [],
                       night_actions = actions_dict,
                       pending_votes = None\<rparr>)
             else Inr (new_state, None))
      else if phase state = DAY_DISCUSSION then
        (if discussion_done state max_discussion_turns then
           (let state1 = next_phase state
            in case run_vote_turn env state1 [] human of
                 Inl e \<Rightarrow> Inl e
               | Inr (new_state, votes, pending_vote_ids) \<Rightarrow>
                   if pending_vote_ids \<noteq> [] then
                     Inr (state1,
                       Some \<lparr>waiting_for_human = True, current_actor_id = None,
                             pending_human_night_ids = [],
                             pending_human_vote_ids = pending_vote_ids,
                             night_actions = None, pending_votes = Some votes\<rparr>)
                   else Inr (new_state, None))
         else
           (case run_discussion_turn env state human max_discussion_turns of
              Inl e \<Rightarrow> Inl e
            | Inr (new_state, waiting_speaker) \<Rightarrow>
                if truthy waiting_speaker then
                  Inr (state,
                    Some \<lparr>waiting_for_human = True, current_actor_id = waiting_speaker,
                          pending_human_night_ids = [], pending_human_vote_ids = [],
                          night_actions = None, pending_votes = None\<rparr>)
                else Inr (new_state, None)))
      else
        (case run_vote_turn env state pending human of
           Inl e \<Rightarrow> Inl e
         | Inr (new_state, votes, pending_vote_ids) \<Rightarrow>
             if pending_vote_ids \<noteq> [] then
               Inr (new_state,
                 Some \<lparr>waiting_for_human = True, current_actor_id = None,
                       pending_human_night_ids = [],
                       pending_human_vote_ids = pending_vote_ids,
                       night_actions = None, pending_votes = Some votes\<rparr>)
             else if phase new_state = DAY_VOTE \<and> votes \<noteq> [] then
               Inr (new_state,
                 Some \<lparr>waiting_for_human = False, current_actor_id = None,
                       pending_human_night_ids = [], pending_human_vote_ids = [],
                       night_actions = None, pending_votes = Some votes\<rparr>)
             else Inr (new_state, None)))"

section \<open>Boundary (api/main.py)\<close>

datatype http_error = HTTPException int string

text \<open>
  The two checks that open \<open>create_game\<close>, before roles are assigned and \<open>start_game\<close> is
  called: \<open>None\<close> when both pass.
\<close>

definition create_game_guard :: "int \<Rightarrow> int \<Rightarrow> http_error option" where
  "create_game_guard num_players num_mafia =
     (if num_players < MIN_PLAYERS then
        Some (HTTPException 400 (''At least '' @ str_int MIN_PLAYERS @ '' players required''))
      else if num_mafia \<ge> num_players then
        Some (HTTPException 400 ''num_mafia must be less than num_players'')
      else None)"

section \<open>Public projection (api/models.py)\<close>

fun event_kind_value :: "EventKind \<Rightarrow> string" where
  "event_kind_value NIGHT_KILL = ''night_kill''"
| "event_kind_value NIGHT_PROTECT = ''night_protect''"
| "event_kind_value NIGHT_CHECK = ''night_check''"
| "event_kind_value DISCUSSION = ''discussion''"
| "event_kind_value VOTE = ''vote''"
| "event_kind_value ELIMINATED = ''eliminated''"
| "event_kind_value GAME_START = ''game_start''"
| "event_kind_value PHASE_CHANGE = ''phase_change''"

record PlayerPublic =
  pp_id :: string
  pp_name :: string
  pp_alive :: bool
  pp_role :: "string option"

record EventPublic =
  ep_kind :: string
  ep_round_index :: int
  ep_phase :: string
  ep_message :: string
  ep_player_id :: "string option"
  ep_target_id :: "string option"

record NightReasoningPublic =
  nr_role :: string
  nr_player_name :: string
  nr_target_name :: string
  nr_reason :: string

record VotePublic =
  vp_voter_id :: string
  vp_voter_name :: string
  vp_target_id :: string
  vp_target_name :: string
  vp_reason :: string

record GameStateResponse =
  r_game_id :: string
  r_players :: "PlayerPublic list"
  r_round_index :: int
  r_phase :: string
  r_events :: "EventPublic list"
  r_discussion :: "DiscussionMessage list"
  r_started :: bool
  r_winner :: "string option"
  r_waiting_for_human :: bool
  r_current_actor_id :: "string option"
  r_pending_human_vote_ids :: "string list"
  r_pending_human_night_ids :: "string list"
  r_human_player_ids :: "string list"
  r_current_round_votes :: "VotePublic list"
  r_spectate :: bool
  r_spectator_mafia_discussion :: "MafiaDiscussionMessage list"
  r_spectator_night_reasoning :: "NightReasoningPublic list"

text \<open>
  The dictionary \<open>{p.id: p.name for p in state.players}\<close> with \<open>.get(x, x)\<close>: for an id
  that occurs twice the later player wins.
\<close>

definition id_to_name :: "GameState \<Rightarrow> string \<Rightarrow> string" where
  "id_to_name s x =
     (case map_of (rev (map (\<lambda>p. (pid p, name p)) (players s))) x of
        Some n \<Rightarrow> n | None \<Rightarrow> x)"

definition vote_public :: "GameState \<Rightarrow> string \<Rightarrow> string \<Rightarrow> string \<Rightarrow> VotePublic" where
  "vote_public s voter target rsn =
     \<lparr>vp_voter_id = voter, vp_voter_name = id_to_name s voter, vp_target_id = target,
      vp_target_name = (if target = ''abstain'' then ''Abstain'' else id_to_name s target),
      vp_reason = rsn\<rparr>"

text \<open>An argument that is \<open>None\<close> by default is an option here.\<close>

definition game_state_to_public ::
  "GameState \<Rightarrow> bool \<Rightarrow> string option \<Rightarrow> string list option \<Rightarrow> string list option
     \<Rightarrow> string list option \<Rightarrow> (string \<times> string \<times> string) list option \<Rightarrow> bool
     \<Rightarrow> GameStateResponse" where
  "game_state_to_public state waiting actor pending_vote_ids pending_night_ids human_ids
     pending spectate =
     (let players_public =
            map (\<lambda>p. \<lparr>pp_id = pid p, pp_name = name p, pp_alive = alive p,
                       pp_role = (if spectate \<or> \<not> alive p then Some (role_value (role p))
                                  else None)\<rparr>)
              (players state);
          events_public =
            map (\<lambda>e. \<lparr>ep_kind = event_kind_value (kind e), ep_round_index = e_round_index e,
                       ep_phase = phase_value (e_phase e), ep_message = message e,
                       ep_player_id = e_player_id e, ep_target_id = e_target_id e\<rparr>)
              (events state);
          winner = (if started state \<and> is_game_over state then get_winner state else None);
          current_round_votes_public =
            (if phase state = DAY_VOTE \<and> pending \<noteq> None \<and> pending \<noteq> Some [] then
               map (\<lambda>(voter, target, rsn). vote_public state voter target rsn) (the pending)
             else
               let round_to_show = (if phase state \<noteq> DAY_VOTE then round_index state - 1
                                    else round_index state)
               in map (\<lambda>v. vote_public state (voter_id v) (v_target_id v) (reason v))
                    (filter (\<lambda>v. v_round_index v = round_to_show) (vote_records state)))
      in \<lparr>r_game_id = game_id state,
          r_players = players_public,
          r_round_index = round_index state,
          r_phase = phase_value (phase state),
          r_events = events_public,
          r_discussion = discussion state,
          r_started = started state,
          r_winner = winner,
          r_waiting_for_human = waiting,
          r_current_actor_id = actor,
          r_pending_human_vote_ids = (case pending_vote_ids of None \<Rightarrow> [] | Some l \<Rightarrow> l),
          r_pending_human_night_ids = (case pending_night_ids of None \<Rightarrow> [] | Some l \<Rightarrow> l),
          r_human_player_ids = (case human_ids of None \<Rightarrow> [] | Some l \<Rightarrow> l),
          r_current_round_votes = current_round_votes_public,
          r_spectate = spectate,
          r_spectator_mafia_discussion = (if spectate then mafia_discussion state else []),
          r_spectator_night_reasoning =
            (if spectate then
               map (\<lambda>r. \<lparr>nr_role = n_role r, nr_player_name = n_player_name r,
                          nr_target_name = n_target_name r, nr_reason = n_reason r\<rparr>)
                 (night_reasoning state)
             else [])\<rparr>)"

section \<open>Example games\<close>

text \<open>
  The five-player game of the engine's tests (villager, mafia, doctor, sheriff, mafia; seed
  42) as \<open>start_game\<close> returns it.
\<close>

definition mk_player :: "string \<Rightarrow> string \<Rightarrow> Role \<Rightarrow> bool \<Rightarrow> Player" where
  "mk_player i n r a = \<lparr>pid = i, name = n, role = r, alive = a\<rparr>"

definition simple_game :: GameState where
  "simple_game =
     \<lparr>game_id = ''g1'',
      players = [mk_player ''player_0'' ''Alice'' VILLAGER True,
                 mk_player ''player_1'' ''Bob'' MAFIA True,
                 mk_player ''player_2'' ''Carol'' DOCTOR True,
                 mk_player ''player_3'' ''Dave'' SHERIFF True,
                 mk_player ''player_4'' ''Eve'' MAFIA True],
      round_index = 0, phase = NIGHT,
      events = [mk_event GAME_START 0 NIGHT ''Game started with 5 players.''],
      discussion = [], vote_records = [], round_summaries = [],
      discussion_order_index = 0, discussion_order = [], vote_order = [],
      vote_order_index = 0, mafia_discussion = [], night_reasoning = [],
      game_seed = Some 42, started = True\<rparr>"

text \<open>The same game in the discussion phase, with a discussion order, and in the vote phase.\<close>

definition discussion_game :: GameState where
  "discussion_game =
     simple_game\<lparr>phase := DAY_DISCUSSION,
                 discussion_order := [''player_3'', ''player_0'', ''player_4'', ''player_1'',
                                      ''player_2'']\<rparr>"

definition vote_game :: GameState where
  "vote_game = next_phase discussion_game"

text \<open>The game after player_0 has died at night, and three votes against player_1.\<close>

definition four_alive_game :: GameState where
  "four_alive_game = vote_game\<lparr>players := mark_dead ''player_0'' (players vote_game)\<rparr>"

definition three_votes :: "(string \<times> string \<times> string) list" where
  "three_votes = [(''player_2'', ''player_1'', ''r''), (''player_3'', ''player_1'', ''r''),
                  (''player_4'', ''player_1'', ''r'')]"

text \<open>
  The doctor-save night: mafia and doctor both choose player_0. \<open>keep_order\<close> stands in for
  the shuffle in examples.
\<close>

definition keep_order :: "int \<Rightarrow> string list \<Rightarrow> string list" where
  "keep_order seed xs = xs"

definition doctor_save :: NightActions where
  "doctor_save = \<lparr>mafia_target_id = Some ''player_0'', doctor_target_id = Some ''player_0'',
                   sheriff_target_id = None\<rparr>"

text \<open>
  An environment in which every vote call raises, every night call answers player_0 and the
  discussion agent returns no output; and the same game with the dead player_0 for the
  projection.
\<close>

definition failing_vote_env :: Env where
  "failing_vote_env =
     \<lparr>setup_ok = (\<lambda>p. True),
      night_agent = (\<lambda>label p s ts. Output (''player_0'', None)),
      discussion_agent = (\<lambda>p s. NoOutput),
      vote_agent = (\<lambda>p s ts. Raises),
      choice = (\<lambda>xs. case xs of [] \<Rightarrow> [] | x # _ \<Rightarrow> x),
      strip = (\<lambda>x. x),
      shuffle = keep_order\<rparr>"

section \<open>Notions of the specification\<close>

text \<open>
  A target is the unique maximum of a list of vote targets when it occurs in the list and
  every other target of the list occurs strictly less often.
\<close>

definition unique_max :: "string list \<Rightarrow> string \<Rightarrow> bool" where
  "unique_max ts x \<longleftrightarrow> x \<in> set ts \<and> (\<forall>y \<in> set ts. y \<noteq> x \<longrightarrow> count_list ts y < count_list ts x)"

text \<open>The events that the night resolution appends, from the validated targets.\<close>

definition kill_events :: "GameState \<Rightarrow> string option \<Rightarrow> string option \<Rightarrow> Event list" where
  "kill_events s m d =
     (if truthy m then
        (if d \<noteq> m then
           [(mk_event NIGHT_KILL (round_index s) NIGHT ''Mafia eliminated a player.'')
              \<lparr>e_target_id := m\<rparr>]
         else [mk_event NIGHT_PROTECT (round_index s) NIGHT
                 ''Doctor protected the mafia target; no one died.''])
      else [])
     @ (if truthy d \<and> \<not> (truthy m \<and> d \<noteq> m) then
          [(mk_event NIGHT_PROTECT (round_index s) NIGHT ''Doctor protected a player.'')
             \<lparr>e_target_id := d\<rparr>]
        else [])"

definition check_events :: "GameState \<Rightarrow> string option \<Rightarrow> Event list" where
  "check_events s c =
     (if truthy c then
        [(mk_event NIGHT_CHECK (round_index s) NIGHT
            (''Sheriff investigated; result is ''
               @ (case get_player s (the c) of None \<Rightarrow> ''town''
                  | Some t \<Rightarrow> if role t = MAFIA then ''mafia'' else ''town'') @ ''.''))
           \<lparr>e_target_id := c,
            extra := Some [(''alignment'',
              Some (case get_player s (the c) of None \<Rightarrow> ''town''
                    | Some t \<Rightarrow> if role t = MAFIA then ''mafia'' else ''town''))]\<rparr>]
      else [])"

section \<open>Verified properties\<close>

subsection \<open>Auxiliary facts\<close>

lemma next_phase_of_simps:
  "next_phase_of NIGHT = DAY_DISCUSSION"
  "next_phase_of DAY_DISCUSSION = DAY_VOTE"
  "next_phase_of DAY_VOTE = NIGHT"
  by (simp_all add: next_phase_of_def PHASE_ORDER_def)

lemma length_filter_split:
  "length (filter P xs) + length (filter (\<lambda>x. \<not> P x) xs) = length xs"
  by (induction xs) auto

lemma round_index_emit [simp]: "round_index (emit s e) = round_index s"
  by (simp add: emit_def)

lemma phase_emit [simp]: "phase (emit s e) = phase s"
  by (simp add: emit_def)

lemma players_emit [simp]: "players (emit s e) = players s"
  by (simp add: emit_def)

lemma events_emit [simp]: "events (emit s e) = events s @ [e]"
  by (simp add: emit_def)

lemma start_simple_game:
  "start_game ''g1'' [''Alice'', ''Bob'', ''Carol'', ''Dave'', ''Eve'']
     [VILLAGER, MAFIA, DOCTOR, SHERIFF, MAFIA] (Some 42) = Inr simple_game"
  by (simp add: start_game_def simple_game_def mk_player_def emit_def str_int_def len_def
      digit_char_def Let_def)

lemma length_enumerate_players [simp]: "length (enumerate_players i xs) = length xs"
  by (induction i xs rule: enumerate_players.induct) simp_all

lemma alive_enumerate_players: "p \<in> set (enumerate_players i xs) \<Longrightarrow> alive p"
  by (induction i xs rule: enumerate_players.induct) auto

lemma round_index_apply_night_actions:
  "round_index (apply_night_actions sh s a) = round_index s"
  by (simp add: apply_night_actions_def Let_def)

lemma round_index_apply_vote:
  "round_index (apply_vote s votes) = round_index s + 1"
  by (simp add: apply_vote_def Let_def)

lemma phase_apply_vote: "phase (apply_vote s votes) = NIGHT"
  by (simp add: apply_vote_def Let_def)

lemma round_index_next_phase:
  "round_index (next_phase s) = (if phase s = DAY_VOTE then round_index s + 1 else round_index s)"
  by (cases "phase s") (simp_all add: next_phase_def next_phase_of_simps)

lemma phase_next_phase: "phase (next_phase s) = next_phase_of (phase s)"
  by (cases "phase s") (simp_all add: next_phase_def next_phase_of_simps)

subsection \<open>Victory\<close>

text \<open>
  Claim C3. With \<open>m\<close> the number of alive mafia players and \<open>t\<close> the number of alive
  players of any other role, \<open>is_game_over\<close> holds exactly when \<open>m = 0\<close> or \<open>m \<ge> t\<close>;
  \<open>get_winner\<close> is town when \<open>m = 0\<close>, mafia when the game is over and \<open>m > 0\<close>, and
  nothing while the game is not over.
\<close>

theorem game_over_and_winner:
  fixes s :: GameState
  defines "m \<equiv> int (length (filter (\<lambda>p. alive p \<and> role p = MAFIA) (players s)))"
      and "t \<equiv> int (length (filter (\<lambda>p. alive p \<and> role p \<noteq> MAFIA) (players s)))"
  shows "(is_game_over s \<longleftrightarrow> m = 0 \<or> m \<ge> t)
       \<and> (m = 0 \<longrightarrow> get_winner s = Some ''town'')
       \<and> (is_game_over s \<and> m > 0 \<longrightarrow> get_winner s = Some ''mafia'')
       \<and> (\<not> is_game_over s \<longrightarrow> get_winner s = None)"
proof -
  have m: "mafia_alive s = m"
    by (simp add: mafia_alive_def m_def len_def get_alive_players_def conj_commute)
  have "length (filter (\<lambda>p. role p = MAFIA) (filter alive (players s)))
          + length (filter (\<lambda>p. \<not> role p = MAFIA) (filter alive (players s)))
        = length (filter alive (players s))"
    by (rule length_filter_split)
  then have t: "town_alive s = t"
    by (simp add: town_alive_def mafia_alive_def t_def len_def get_alive_players_def conj_commute)
  show ?thesis
    by (simp add: is_game_over_def get_winner_def m t)
qed

text \<open>
  In the five-player game two mafia face three others: the game is not over and there is no
  winner. With the three others dead the mafia have won.
\<close>

theorem game_over_and_winner_witness:
  "\<not> is_game_over simple_game \<and> get_winner simple_game = None
   \<and> is_game_over (simple_game\<lparr>players := mark_dead ''player_0'' (mark_dead ''player_2''
        (mark_dead ''player_3'' (players simple_game)))\<rparr>)
   \<and> get_winner (simple_game\<lparr>players := mark_dead ''player_0'' (mark_dead ''player_2''
        (mark_dead ''player_3'' (players simple_game)))\<rparr>) = Some ''mafia''"
  using game_over_and_winner [of simple_game]
    game_over_and_winner [of "simple_game\<lparr>players := mark_dead ''player_0''
      (mark_dead ''player_2'' (mark_dead ''player_3'' (players simple_game)))\<rparr>"]
  by (simp add: simple_game_def mk_player_def mark_dead_def)

subsection \<open>Phase advance\<close>

text \<open>
  Claim C5. In phase \<open>day_discussion\<close>, \<open>next_phase\<close> returns the input state with the phase
  set to \<open>day_vote\<close>, \<open>vote_order\<close> set to the reverse of the input's \<open>discussion_order\<close> and
  \<open>vote_order_index\<close> set to 0; every other field, the rest of the cursor and the player
  list among them, is the input's.
\<close>

theorem next_phase_discussion_to_vote:
  "phase s = DAY_DISCUSSION \<Longrightarrow>
     next_phase s = s\<lparr>phase := DAY_VOTE, vote_order := rev (discussion_order s),
                      vote_order_index := 0\<rparr>"
  by (simp add: next_phase_def next_phase_of_simps)

theorem next_phase_discussion_to_vote_witness:
  "phase discussion_game = DAY_DISCUSSION
   \<and> phase (next_phase discussion_game) = DAY_VOTE
   \<and> vote_order (next_phase discussion_game)
       = [''player_2'', ''player_1'', ''player_4'', ''player_0'', ''player_3'']
   \<and> vote_order_index (next_phase discussion_game) = 0
   \<and> players (next_phase discussion_game) = players discussion_game
   \<and> round_index (next_phase discussion_game) = round_index discussion_game
   \<and> discussion_order (next_phase discussion_game) = discussion_order discussion_game"
proof -
  have h: "phase discussion_game = DAY_DISCUSSION"
    by (simp add: discussion_game_def)
  show ?thesis
    using h next_phase_discussion_to_vote [OF h]
    by (simp add: discussion_game_def)
qed

subsection \<open>Starting a game\<close>

text \<open>
  Claim C9. \<open>start_game\<close> raises exactly when the list of names and the list of roles differ
  in length. For lists of equal length, fewer than four players and no players at all
  included, it returns a started state in the night phase of round 0 with one alive player
  for each name. The minimum of four players is checked by the guard that opens
  \<open>create_game\<close>, not by the engine.
\<close>

theorem start_game_raises_iff_length_mismatch:
  "((\<exists>e. start_game g names roles seed = Inl e) \<longleftrightarrow> length names \<noteq> length roles)
   \<and> (length names = length roles \<longrightarrow>
        (\<exists>s. start_game g names roles seed = Inr s \<and> started s \<and> phase s = NIGHT
             \<and> round_index s = 0 \<and> length (players s) = length names
             \<and> (\<forall>p \<in> set (players s). alive p)))
   \<and> (\<exists>s. start_game g [] [] seed = Inr s \<and> started s \<and> players s = [])
   \<and> (n < MIN_PLAYERS \<longrightarrow> create_game_guard n k \<noteq> None)"
  by (auto simp add: start_game_def Let_def emit_def create_game_guard_def
      dest: alive_enumerate_players)

theorem start_game_raises_iff_length_mismatch_witness:
  "start_game ''g'' [''A'', ''B''] [MAFIA] (Some 1) = Inl ValueError
   \<and> isl (start_game ''g'' [''A'', ''B''] [MAFIA] (Some 1))
   \<and> \<not> isl (start_game ''g'' [''A'', ''B'', ''C''] [VILLAGER, MAFIA, VILLAGER] (Some 1))
   \<and> \<not> isl (start_game ''g'' [] [] None)
   \<and> create_game_guard 2 1 \<noteq> None"
  using start_game_raises_iff_length_mismatch [of "''g''" "[''A'', ''B'']" "[MAFIA]" "Some 1" 2 1]
    start_game_raises_iff_length_mismatch
      [of "''g''" "[''A'', ''B'', ''C'']" "[VILLAGER, MAFIA, VILLAGER]" "Some 1" 2 1]
    start_game_raises_iff_length_mismatch [of "''g''" "[]" "[]" None 2 1]
  by (auto simp add: MIN_PLAYERS_def start_game_def)

subsection \<open>The round counter\<close>

text \<open>
  Claim C4. \<open>round_index\<close> never decreases. \<open>apply_vote\<close> adds exactly one to it and leaves
  the phase at night; \<open>next_phase\<close> adds exactly one when it is applied in \<open>day_vote\<close>, where
  it moves to night, and leaves it unchanged in the other phases, where it does not move to
  night. \<open>apply_night_actions\<close>, \<open>add_discussion_message\<close>, \<open>append_discussion_speaker\<close> and
  \<open>advance_vote_order_index\<close> (and the two functions that append spectator records) leave
  it unchanged.
\<close>

theorem round_index_across_transitions:
  "round_index (apply_night_actions sh s a) = round_index s
   \<and> round_index (add_discussion_message s i n t) = round_index s
   \<and> round_index (append_discussion_speaker s i) = round_index s
   \<and> round_index (advance_vote_order_index s) = round_index s
   \<and> round_index (add_mafia_discussion_message s i n t) = round_index s
   \<and> round_index (add_night_reasoning s r rl i n ti tn rsn) = round_index s
   \<and> round_index (apply_vote s votes) = round_index s + 1
   \<and> phase (apply_vote s votes) = NIGHT
   \<and> (phase s = DAY_VOTE \<longrightarrow>
        round_index (next_phase s) = round_index s + 1 \<and> phase (next_phase s) = NIGHT)
   \<and> (phase s \<noteq> DAY_VOTE \<longrightarrow>
        round_index (next_phase s) = round_index s \<and> phase (next_phase s) \<noteq> NIGHT)
   \<and> round_index s \<le> round_index (apply_vote s votes)
   \<and> round_index s \<le> round_index (next_phase s)"
  by (cases "phase s")
     (simp_all add: round_index_apply_night_actions round_index_apply_vote phase_apply_vote
       round_index_next_phase phase_next_phase next_phase_of_simps add_discussion_message_def
       append_discussion_speaker_def advance_vote_order_index_def Let_def
       add_mafia_discussion_message_def add_night_reasoning_def)

theorem round_index_across_transitions_witness:
  "phase vote_game = DAY_VOTE
   \<and> round_index (next_phase vote_game) = round_index vote_game + 1
   \<and> phase (next_phase vote_game) = NIGHT
   \<and> phase discussion_game \<noteq> DAY_VOTE
   \<and> round_index (next_phase discussion_game) = round_index discussion_game
   \<and> phase (next_phase discussion_game) \<noteq> NIGHT
   \<and> round_index (apply_vote vote_game []) = 1"
  using round_index_across_transitions [of "\<lambda>_ xs. xs" vote_game
      "\<lparr>mafia_target_id = None, doctor_target_id = None, sheriff_target_id = None\<rparr>"
      "''player_0''" "''Alice''" "''hello''" 0 "''Mafia''" "''player_1''" "''Bob''" "''none''" "[]"]
    round_index_across_transitions [of "\<lambda>_ xs. xs" discussion_game
      "\<lparr>mafia_target_id = None, doctor_target_id = None, sheriff_target_id = None\<rparr>"
      "''player_0''" "''Alice''" "''hello''" 0 "''Mafia''" "''player_1''" "''Bob''" "''none''" "[]"]
  by (simp add: vote_game_def discussion_game_def simple_game_def next_phase_def
      next_phase_of_simps)

subsection \<open>The vote threshold in double precision\<close>

text \<open>
  The bit length brackets a positive number between two powers of two; rounding to 53
  significant bits moves a number by at most half a unit in the last place and leaves a
  number that is less than half a unit above a multiple of the unit at that multiple. With
  \<open>100 * double_051 = 51 * 2^53 + 8\<close> this gives the threshold exactly for every list
  length below \<open>2^32\<close>: it is the least integer that is at least \<open>51 * n / 100\<close>.
\<close>

lemma bit_length_upper: "n < 2 ^ bit_length n"
proof (induction n rule: bit_length.induct)
  case (1 n)
  show ?case
  proof (cases "n = 0")
    case True
    then show ?thesis by (simp add: bit_length.simps)
  next
    case False
    then have "n div 2 < 2 ^ bit_length (n div 2)" using 1 by simp
    then have "n < 2 * 2 ^ bit_length (n div 2)" by linarith
    then show ?thesis using False by (simp add: bit_length.simps [of n])
  qed
qed

lemma bit_length_lower: "0 < n \<Longrightarrow> 2 ^ bit_length n \<le> 2 * n"
proof (induction n rule: bit_length.induct)
  case (1 n)
  then have n: "n \<noteq> 0" by simp
  show ?case
  proof (cases "n div 2 = 0")
    case True
    with n have "n = 1" by (simp add: div_eq_0_iff) 
    then show ?thesis by (simp add: bit_length.simps [of "Suc 0"] bit_length.simps [of 0])
  next
    case False
    then have "2 ^ bit_length (n div 2) \<le> 2 * (n div 2)" using 1 n by simp
    then have "2 * 2 ^ bit_length (n div 2) \<le> 2 * n" by linarith
    then show ?thesis using n by (simp add: bit_length.simps [of n])
  qed
qed

lemma bit_length_le: "n < 2 ^ k \<Longrightarrow> bit_length n \<le> k"
proof (cases "n = 0")
  case True
  then show ?thesis by (simp add: bit_length.simps)
next
  case False
  assume "n < 2 ^ k"
  with bit_length_lower [of n] False have "(2::nat) ^ bit_length n < 2 ^ Suc k" by simp
  then have "bit_length n < Suc k" by (simp only: power_strict_increasing_iff [of 2]) 
  then show ?thesis by simp
qed

lemma bit_length_gt: "2 ^ k \<le> n \<Longrightarrow> k < bit_length n"
proof -
  assume "2 ^ k \<le> n"
  with bit_length_upper [of n] have "(2::nat) ^ k < 2 ^ bit_length n" by linarith
  then show ?thesis by (simp only: power_strict_increasing_iff [of 2])
qed

lemma round_sig53_small: "n < 2 ^ 53 \<Longrightarrow> round_sig53 n = n"
  using bit_length_le [of n 53] by (simp add: round_sig53_def Let_def)

lemma round_sig53_error:
  assumes "53 < bit_length p"
  shows "round_sig53 p \<le> p + 2 ^ (bit_length p - 53 - 1)
       \<and> p \<le> round_sig53 p + 2 ^ (bit_length p - 53 - 1)"
proof -
  define s where "s = bit_length p - 53"
  define q where "q = p div 2 ^ s"
  define r where "r = p mod 2 ^ s"
  define h :: nat where "h = 2 ^ (s - 1)"
  have s: "0 < s" using assms by (simp add: s_def)
  then have hs: "(2::nat) ^ s = 2 * h"
    by (cases s) (simp_all add: h_def)
  have h': "2 ^ (s - Suc 0) = h" by (simp add: h_def)
  have "p div 2 ^ s * 2 ^ s + p mod 2 ^ s = p" by (rule div_mult_mod_eq)
  then have p: "p = q * (2 * h) + r" by (simp add: q_def r_def hs)
  have r: "r < 2 * h" unfolding r_def hs [symmetric] by simp
  have R: "round_sig53 p = (if r > h \<or> (r = h \<and> odd q) then q + 1 else q) * (2 * h)"
    using assms by (simp add: round_sig53_def Let_def s_def [symmetric] q_def r_def h' hs)
  show ?thesis
    unfolding s_def [symmetric] h_def [symmetric] R
    using p r by (auto simp add: algebra_simps)
qed

lemma round_sig53_exact:
  assumes "53 < bit_length p"
      and "p = c * 2 ^ (bit_length p - 53) + e"
      and "e < 2 ^ (bit_length p - 53 - 1)"
  shows "round_sig53 p = c * 2 ^ (bit_length p - 53)"
proof -
  define s where "s = bit_length p - 53"
  define h :: nat where "h = 2 ^ (s - 1)"
  have s: "0 < s" using assms(1) by (simp add: s_def)
  then have hs: "(2::nat) ^ s = 2 * h"
    by (cases s) (simp_all add: h_def)
  have h': "2 ^ (s - Suc 0) = h" by (simp add: h_def)
  have e: "e < h" using assms(3) by (simp add: s_def h_def)
  have p: "p = c * (2 * h) + e" using assms(2) by (simp add: s_def [symmetric] hs)
  have q: "p div (2 * h) = c" using e by (simp add: p)
  have r: "p mod (2 * h) = e" using e by (simp add: p)
  show ?thesis
    using assms(1) e
    by (simp add: round_sig53_def Let_def s_def [symmetric] h' hs q r)
qed

lemma ceil_div_general:
  fixes R c B :: nat
  assumes "0 < B" and "(c - 1) * B < R \<or> (c = 0 \<and> R = 0)" and "R \<le> c * B"
  shows "(R + (B - 1)) div B = c"
proof (rule div_nat_eqI)
  show "B * c \<le> R + (B - 1)"
  proof (cases c)
    case 0
    then show ?thesis by simp
  next
    case (Suc c')
    with assms(2) have "c' * B < R" by simp
    then have "c' * B + 1 \<le> R" by simp
    then have "c' * B + B \<le> R + (B - 1)" using assms(1) by linarith
    then show ?thesis by (simp add: Suc mult.commute)
  qed
  show "R + (B - 1) < B * Suc c"
    using assms(1,3) by (simp add: mult.commute)
qed

lemma ceil_51_bounds:
  fixes n c :: nat
  assumes "c = (51 * n + 99) div 100"
  shows "51 * n \<le> 100 * c" "100 * c \<le> 51 * n + 99"
proof -
  have "100 * ((51 * n + 99) div 100) + (51 * n + 99) mod 100 = 51 * n + 99"
    by (rule mult_div_mod_eq)
  moreover have "(51 * n + 99) mod 100 < 100" by simp
  ultimately show "51 * n \<le> 100 * c" "100 * c \<le> 51 * n + 99"
    unfolding assms by linarith+
qed

lemma hundred_dvd:
  fixes n c :: nat
  assumes "51 * n = 100 * c"
  shows "100 dvd n"
proof -
  from assms have "n + (26 * n) * 100 = (51 * c) * 100" by linarith
  then have "100 dvd n + (26 * n) * 100" by (metis dvd_triv_right)
  then show ?thesis by (simp only: dvd_add_times_triv_right_iff)
qed

lemma threshold_of_exact:
  assumes n: "n < 2 ^ 32"
  shows "threshold_of n = (51 * int n + 99) div 100"
proof -
  define B :: nat where "B = 2 ^ 53"
  have B: "B = 9007199254740992" by (simp add: B_def)
  define c where "c = (51 * n + 99) div 100"
  define P where "P = n * double_051"
  define R where "R = round_sig53 P"
  have c_int: "(51 * int n + 99) div 100 = int c"
    by (simp add: c_def zdiv_int)
  have n32: "n < 4294967296" using n by simp
  have rn: "round_sig53 n = n"
    using n32 by (intro round_sig53_small) simp
  have th: "threshold_of n = int ((R + (B - 1)) div B)"
    by (simp add: threshold_of_def Let_def rn R_def P_def B_def)
  have c_lo: "51 * n \<le> 100 * c" and c_hi: "100 * c \<le> 51 * n + 99"
    using ceil_51_bounds [OF c_def] by simp_all
  have P100: "100 * P = 51 * n * B + 8 * n"
    by (simp add: P_def double_051_def B)
  have goal: "(R + (B - 1)) div B = c"
  proof (cases "n < 2")
    case True
    then consider "n = 0" | "n = 1" by linarith
    then show ?thesis
    proof cases
      case 1
      have "R = 0"
        by (simp add: R_def P_def 1 round_sig53_def bit_length.simps [of 0])
      then show ?thesis by (simp add: c_def 1 B)
    next
      case 2
      have "double_051 < 2 ^ 53" by (simp add: double_051_def)
      then have "round_sig53 double_051 = double_051" by (rule round_sig53_small)
      then have "R = 4593671619917906" by (simp add: R_def P_def 2 double_051_def)
      then show ?thesis by (simp add: c_def 2 B)
    qed
  next
    case False
    then have n2: "2 \<le> n" by simp
    have "B \<le> 2 * double_051" by (simp add: double_051_def B)
    also have "\<dots> \<le> P" using n2 by (simp add: P_def)
    finally have Plo: "2 ^ 53 \<le> P" by (simp add: B_def)
    then have b53: "53 < bit_length P" by (rule bit_length_gt)
    have "P < 4294967296 * 9007199254740992"
      unfolding P_def using n32 by (intro mult_strict_mono) (simp_all add: double_051_def)
    then have "P < 2 ^ 85" by simp
    then have b85: "bit_length P \<le> 85" by (rule bit_length_le)
    define s where "s = bit_length P - 53"
    define h :: nat where "h = 2 ^ (s - 1)"
    have s: "0 < s" "s \<le> 32" using b53 b85 by (simp_all add: s_def)
    have hs: "(2::nat) ^ s = 2 * h" using s(1) by (cases s) (simp_all add: h_def)
    have "h \<le> 2 ^ 31"
      unfolding h_def using s(2) by (intro power_increasing) simp_all
    then have h31: "h \<le> 2147483648" by simp
    have err: "R \<le> P + h" "P \<le> R + h"
      using round_sig53_error [OF b53] by (simp_all add: R_def s_def h_def)
    have lower: "(c - 1) * B < R"
    proof (cases c)
      case 0
      with c_lo n2 show ?thesis by simp
    next
      case (Suc c')
      have "100 * (c' * B) + 100 * h < 51 * n * B + 8 * n"
      proof -
        have "100 * c' + 1 \<le> 51 * n" using c_hi Suc by simp
        then have "(100 * c' + 1) * B \<le> 51 * n * B" by (rule mult_le_mono1)
        then have "100 * (c' * B) + B \<le> 51 * n * B" by (simp add: algebra_simps)
        moreover have "100 * h < B" using h31 B by simp
        ultimately show ?thesis by linarith
      qed
      then have "100 * (c' * B) + 100 * h < 100 * P" by (simp only: P100)
      then have "c' * B + h < P" by simp
      then show ?thesis using err(2) Suc by simp
    qed
    have upper: "R \<le> c * B"
    proof (cases "100 dvd n")
      case False
      then have "51 * n \<noteq> 100 * c" using hundred_dvd by blast
      with c_lo have "51 * n + 1 \<le> 100 * c" by simp
      then have "(51 * n + 1) * B \<le> 100 * c * B" by (rule mult_le_mono1)
      then have "51 * n * B + B \<le> 100 * (c * B)" by (simp add: algebra_simps)
      moreover have "8 * n + 100 * h \<le> B" using h31 n32 B by simp
      ultimately have "51 * n * B + 8 * n + 100 * h \<le> 100 * (c * B)" by linarith
      then have "100 * P + 100 * h \<le> 100 * (c * B)" by (simp only: P100)
      then have "P + h \<le> c * B" by simp
      then show ?thesis using err(1) by linarith
    next
      case True
      then obtain k where k: "n = 100 * k" by (auto simp add: dvd_def)
      have ck: "c = 51 * k" by (simp add: c_def k)
      have "100 * P = 100 * (51 * k * B + 8 * k)"
        unfolding P100 k by (simp add: algebra_simps)
      then have Pk: "P = 51 * k * B + 8 * k" by simp
      have "P < 2 ^ bit_length P" by (rule bit_length_upper)
      also have "bit_length P = s + 53" using b53 by (simp add: s_def)
      finally have "P < 2 ^ s * B" by (simp add: power_add B_def)
      then have "51 * k * B + 8 * k < (2 * h) * B" using Pk by (simp add: hs)
      then have "51 * k * B < (2 * h) * B" by linarith
      then have "51 * k < 2 * h" by (simp only: mult_less_cancel2)
      then have e: "8 * k < h" by simp
      have "B = 2 ^ (53 - s) * 2 ^ s"
        using s(2) by (simp add: power_add [symmetric] B_def)
      then have "51 * k * B = (51 * k * 2 ^ (53 - s)) * 2 ^ s"
        by (simp only: mult.assoc)
      then have Ps: "P = (51 * k * 2 ^ (53 - s)) * 2 ^ (bit_length P - 53) + 8 * k"
        using Pk by (simp only: s_def)
      have es: "8 * k < 2 ^ (bit_length P - 53 - 1)"
        using e by (simp add: h_def s_def)
      have "round_sig53 P = (51 * k * 2 ^ (53 - s)) * 2 ^ (bit_length P - 53)"
        using b53 Ps es by (rule round_sig53_exact)
      also have "\<dots> = 51 * k * (2 ^ (53 - s) * 2 ^ s)"
        by (simp only: s_def mult.assoc)
      also have "\<dots> = 51 * k * B"
        using s(2) by (simp add: power_add [symmetric] B_def)
      finally show ?thesis by (simp add: R_def ck)
    qed
    have "0 < B" by (simp add: B)
    then show ?thesis using lower upper by (intro ceil_div_general) simp_all
  qed
  show ?thesis by (simp only: th goal c_int)
qed

subsection \<open>Counting votes\<close>

lemma Counter_Nil [simp]: "Counter [] = []"
  by (simp add: Counter_def)

lemma eliminated_id_no_targets:
  "counted_targets s votes = [] \<Longrightarrow> eliminated_id s votes = None"
  by (simp add: eliminated_id_def)


subsection \<open>Counter\<close>

lemma counter_add_keys: "fst ` set (counter_add k cs) = insert k (fst ` set cs)"
  by (induction k cs rule: counter_add.induct) auto

lemma counter_add_distinct:
  "distinct (map fst cs) \<Longrightarrow> distinct (map fst (counter_add k cs))"
proof (induction k cs rule: counter_add.induct)
  case (1 k)
  then show ?case by simp
next
  case (2 k k' c rest)
  then show ?case
    using counter_add_keys [of k rest] by (auto simp add: image_iff)
qed

lemma counter_add_map_of:
  "map_of (counter_add k cs) x =
     (if x = k then Some (case map_of cs k of None \<Rightarrow> 1 | Some c \<Rightarrow> c + 1) else map_of cs x)"
  by (induction k cs rule: counter_add.induct) auto

lemma Counter_snoc: "Counter (ts @ [k]) = counter_add k (Counter ts)"
  by (simp add: Counter_def)

lemma Counter_distinct: "distinct (map fst (Counter ts))"
  by (induction ts rule: rev_induct) (simp_all add: Counter_snoc counter_add_distinct)

lemma Counter_keys: "fst ` set (Counter ts) = set ts"
  by (induction ts rule: rev_induct) (simp_all add: Counter_snoc counter_add_keys)

lemma Counter_map_of:
  "map_of (Counter ts) x = (if x \<in> set ts then Some (count_list ts x) else None)"
proof (induction ts arbitrary: x rule: rev_induct)
  case Nil
  then show ?case by simp
next
  case (snoc k ts)
  show ?case
    by (simp add: Counter_snoc counter_add_map_of snoc)
qed

lemma Counter_mem:
  "(k, c) \<in> set (Counter ts) \<longleftrightarrow> k \<in> set ts \<and> c = count_list ts k"
proof -
  have "(k, c) \<in> set (Counter ts) \<longleftrightarrow> map_of (Counter ts) k = Some c"
    using map_of_eq_Some_iff [OF Counter_distinct, of ts k c] by simp
  then show ?thesis
    by (auto simp add: Counter_map_of)
qed

lemma Counter_values: "snd ` set (Counter ts) = count_list ts ` set ts"
proof -
  have "\<And>c. c \<in> snd ` set (Counter ts) \<longleftrightarrow> c \<in> count_list ts ` set ts"
  proof -
    fix c
    have "c \<in> snd ` set (Counter ts) \<longleftrightarrow> (\<exists>k. (k, c) \<in> set (Counter ts))"
      by (force simp add: image_iff)
    also have "\<dots> \<longleftrightarrow> c \<in> count_list ts ` set ts"
      by (auto simp add: Counter_mem)
    finally show "c \<in> snd ` set (Counter ts) \<longleftrightarrow> c \<in> count_list ts ` set ts" .
  qed
  then show ?thesis by blast
qed

lemma Counter_empty_iff: "Counter ts = [] \<longleftrightarrow> ts = []"
  using Counter_keys [of ts] by (cases ts) auto

lemma singleton_list_iff: "distinct xs \<Longrightarrow> xs = [x] \<longleftrightarrow> set xs = {x}"
proof
  assume "xs = [x]" then show "set xs = {x}" by simp
next
  assume d: "distinct xs" and s: "set xs = {x}"
  then have "card (set xs) = 1" by simp
  with d have "length xs = 1" by (simp add: distinct_card)
  with s show "xs = [x]" by (cases xs) auto
qed

text \<open>The list of tied targets of \<open>eliminated_id\<close>.\<close>

lemma tied_distinct:
  "distinct (map fst (filter (\<lambda>(tid, c). c = m) (Counter ts)))"
  using Counter_distinct [of ts] by (rule distinct_map_filter)

lemma tied_set:
  "set (map fst (filter (\<lambda>(tid, c). c = m) (Counter ts))) = {k \<in> set ts. count_list ts k = m}"
  by (auto simp add: Counter_mem image_iff)

lemma Max_counts_ge: "k \<in> set ts \<Longrightarrow> count_list ts k \<le> Max (count_list ts ` set ts)"
  by simp

lemma tied_singleton_iff:
  assumes "ts \<noteq> []"
  shows "map fst (filter (\<lambda>(tid, c). c = Max (snd ` set (Counter ts))) (Counter ts)) = [x]
         \<longleftrightarrow> unique_max ts x"
proof -
  let ?M = "Max (count_list ts ` set ts)"
  have ne: "count_list ts ` set ts \<noteq> {}" using assms by simp
  have "map fst (filter (\<lambda>(tid, c). c = ?M) (Counter ts)) = [x]
        \<longleftrightarrow> {k \<in> set ts. count_list ts k = ?M} = {x}"
    using singleton_list_iff [OF tied_distinct, of ?M ts x] by (simp only: tied_set)
  also have "\<dots> \<longleftrightarrow> unique_max ts x"
  proof
    assume eq: "{k \<in> set ts. count_list ts k = ?M} = {x}"
    then have x: "x \<in> set ts" "count_list ts x = ?M" by auto
    have "\<forall>y \<in> set ts. y \<noteq> x \<longrightarrow> count_list ts y < count_list ts x"
    proof (intro ballI impI)
      fix y assume y: "y \<in> set ts" "y \<noteq> x"
      then have "count_list ts y \<le> ?M" by simp
      moreover have "count_list ts y \<noteq> ?M" using eq y by auto
      ultimately show "count_list ts y < count_list ts x" using x by simp
    qed
    with x show "unique_max ts x" by (simp add: unique_max_def)
  next
    assume u: "unique_max ts x"
    then have x: "x \<in> set ts" by (simp add: unique_max_def)
    have le: "\<forall>y \<in> set ts. count_list ts y \<le> count_list ts x"
      using u by (auto simp add: unique_max_def intro: less_imp_le)
    have M: "?M = count_list ts x"
      by (rule Max_eqI) (use x le in auto)
    show "{k \<in> set ts. count_list ts k = ?M} = {x}"
      using u x by (auto simp add: M unique_max_def)
  qed
  finally show ?thesis by (simp add: Counter_values)
qed

lemma eliminated_id_iff:
  "eliminated_id s votes = Some x \<longleftrightarrow>
     unique_max (counted_targets s votes) x
     \<and> threshold_of (card (alive_ids s)) \<le> int (count_list (counted_targets s votes) x)"
proof (cases "counted_targets s votes = []")
  case True
  then show ?thesis by (simp add: eliminated_id_def unique_max_def)
next
  case False
  let ?ts = "counted_targets s votes"
  let ?M = "Max (snd ` set (Counter ?ts))"
  let ?tied = "map fst (filter (\<lambda>(tid, c). c = ?M) (Counter ?ts))"
  have ne: "Counter ?ts \<noteq> []" using False by (simp add: Counter_empty_iff)
  have e: "eliminated_id s votes =
      (case ?tied of [] \<Rightarrow> None
       | [y] \<Rightarrow> if threshold_of (card (alive_ids s)) \<le> int ?M then Some y else None
       | _ \<Rightarrow> None)"
    using ne by (simp add: eliminated_id_def Let_def cong: list.case_cong)
  have t: "\<And>y. ?tied = [y] \<longleftrightarrow> unique_max ?ts y"
    using tied_singleton_iff [OF False] .
  show ?thesis
  proof
    assume a: "eliminated_id s votes = Some x"
    then have tx: "?tied = [x]" and th: "threshold_of (card (alive_ids s)) \<le> int ?M"
      unfolding e by (auto split: list.splits if_splits)
    from tx have u: "unique_max ?ts x" by (simp only: t)
    then have "\<forall>y \<in> set ?ts. count_list ?ts y \<le> count_list ?ts x" "x \<in> set ?ts"
      by (auto simp add: unique_max_def intro: less_imp_le)
    then have "Max (count_list ?ts ` set ?ts) = count_list ?ts x"
      by (intro Max_eqI) auto
    then have "?M = count_list ?ts x" by (simp add: Counter_values)
    with u th show "unique_max ?ts x
      \<and> threshold_of (card (alive_ids s)) \<le> int (count_list ?ts x)" by simp
  next
    assume b: "unique_max ?ts x
      \<and> threshold_of (card (alive_ids s)) \<le> int (count_list ?ts x)"
    then have tx: "?tied = [x]" by (simp only: t)
    from b have "\<forall>y \<in> set ?ts. count_list ?ts y \<le> count_list ?ts x" "x \<in> set ?ts"
      by (auto simp add: unique_max_def intro: less_imp_le)
    then have "Max (count_list ?ts ` set ?ts) = count_list ?ts x"
      by (intro Max_eqI) auto
    then have "?M = count_list ?ts x" by (simp add: Counter_values)
    with b tx show "eliminated_id s votes = Some x"
      unfolding e by simp
  qed
qed

lemma record_votes_append:
  "\<exists>new. record_votes ids r recs votes = recs @ new
     \<and> (\<forall>v \<in> set new. v_round_index v = r
           \<and> (v_target_id v = ''abstain'' \<or> v_target_id v \<in> ids))"
proof (induction votes arbitrary: recs)
  case Nil
  then show ?case by simp
next
  case (Cons a votes)
  obtain voter target rsn where a: "a = (voter, target, rsn)" by (cases a) auto
  let ?ab = "\<lparr>voter_id = voter, v_target_id = ''abstain'', reason = rsn, v_round_index = r\<rparr>"
  let ?tg = "\<lparr>voter_id = voter, v_target_id = target, reason = rsn, v_round_index = r\<rparr>"
  let ?P = "\<lambda>v. v_round_index v = r \<and> (v_target_id v = ''abstain'' \<or> v_target_id v \<in> ids)"
  show ?case
  proof (cases "voter \<in> ids \<and> target = ''abstain''")
    case True
    from Cons.IH [of "recs @ [?ab]"] obtain new where
      n: "record_votes ids r (recs @ [?ab]) votes = (recs @ [?ab]) @ new" "\<forall>v \<in> set new. ?P v"
      by blast
    have "record_votes ids r recs (a # votes) = recs @ (?ab # new)"
      using True n(1) by (simp add: a)
    moreover have "\<forall>v \<in> set (?ab # new). ?P v" using n(2) by simp
    ultimately show ?thesis by blast
  next
    case False
    note nab = False
    show ?thesis
    proof (cases "voter \<in> ids \<and> target \<in> ids \<and> voter \<noteq> target")
      case True
      from Cons.IH [of "recs @ [?tg]"] obtain new where
        n: "record_votes ids r (recs @ [?tg]) votes = (recs @ [?tg]) @ new" "\<forall>v \<in> set new. ?P v"
        by blast
      have "record_votes ids r recs (a # votes) = recs @ (?tg # new)"
        using True nab n(1) by (simp add: a)
      moreover have "\<forall>v \<in> set (?tg # new). ?P v" using n(2) True by simp
      ultimately show ?thesis by blast
    next
      case False
      then have "record_votes ids r recs (a # votes) = record_votes ids r recs votes"
        using nab by (auto simp add: a)
      then show ?thesis using Cons.IH [of recs] by simp
    qed
  qed
qed

lemma counted_targets_alive:
  assumes "\<forall>v \<in> set (vote_records s). v_round_index v = round_index s \<longrightarrow>
             v_target_id v = ''abstain'' \<or> v_target_id v \<in> alive_ids s"
  shows "set (counted_targets s votes) \<subseteq> alive_ids s"
proof -
  obtain new where n: "record_votes (alive_ids s) (round_index s) (vote_records s) votes
      = vote_records s @ new"
    "\<forall>v \<in> set new. v_round_index v = round_index s
           \<and> (v_target_id v = ''abstain'' \<or> v_target_id v \<in> alive_ids s)"
    using record_votes_append by blast
  show ?thesis
    using assms n(2) by (auto simp add: counted_targets_def round_votes_def n(1))
qed

lemma vote_records_apply_vote:
  "vote_records (apply_vote s votes)
     = record_votes (alive_ids s) (round_index s) (vote_records s) votes"
  by (simp add: apply_vote_def Let_def emit_def)

lemma counted_targets_observed:
  "counted_targets s votes
     = map v_target_id (filter (\<lambda>v. v_round_index v = round_index s \<and> v_target_id v \<noteq> ''abstain'')
         (vote_records (apply_vote s votes)))"
  by (simp add: counted_targets_def round_votes_def vote_records_apply_vote conj_commute)

text \<open>The player list after \<open>apply_vote\<close>.\<close>

lemma players_apply_vote:
  "players (apply_vote s votes) =
     (if round_votes s votes \<noteq> [] \<and> truthy (eliminated_id s votes)
      then mark_dead (the (eliminated_id s votes)) (players s) else players s)"
  by (simp add: apply_vote_def Let_def emit_def)

lemma events_apply_vote_eliminated:
  assumes "round_votes s votes \<noteq> []" "eliminated_id s votes = Some x" "x \<noteq> []"
    "get_player s x = Some p"
  shows "events (apply_vote s votes) = events s @
     [(mk_event ELIMINATED (round_index s) DAY_VOTE (name p @ '' was eliminated by vote.''))
        \<lparr>e_player_id := Some x, extra := Some [(''role'', Some (role_value (role p)))]\<rparr>,
      mk_event PHASE_CHANGE (round_index s + 1) NIGHT
        (''Night '' @ str_int (round_index s + 2) @ ''.'')]"
  using assms by (simp add: apply_vote_def Let_def emit_def get_player_def add.commute)

lemma alive_ids_mark_dead:
  "pid ` set (filter alive (mark_dead x ps)) = pid ` set (filter alive ps) - {x}"
  by (induction ps) (auto simp add: mark_dead_def)

lemma mark_dead_absent: "x \<notin> pid ` set ps \<Longrightarrow> mark_dead x ps = ps"
  by (induction ps) (auto simp add: mark_dead_def)

lemma length_alive_mark_dead:
  "distinct (map pid ps) \<Longrightarrow>
     length (filter alive ps) \<le> length (filter alive (mark_dead x ps)) + 1"
proof (induction ps)
  case Nil
  then show ?case by (simp add: mark_dead_def)
next
  case (Cons p ps)
  show ?case
  proof (cases "pid p = x")
    case True
    with Cons.prems have "x \<notin> pid ` set ps" by auto
    then have "mark_dead x ps = ps" by (rule mark_dead_absent)
    then have "mark_dead x (p # ps) = p\<lparr>alive := False\<rparr> # ps"
      using True by (simp add: mark_dead_def)
    then show ?thesis by simp
  next
    case False
    then have "mark_dead x (p # ps) = p # mark_dead x ps"
      by (simp add: mark_dead_def)
    then show ?thesis using Cons by simp
  qed
qed

lemma find_mark_dead:
  "find (\<lambda>p. pid p = x) (mark_dead x ps)
     = map_option (\<lambda>p. p\<lparr>alive := False\<rparr>) (find (\<lambda>p. pid p = x) ps)"
  by (induction ps) (auto simp add: mark_dead_def)

lemma find_distinct:
  "distinct (map pid ps) \<Longrightarrow> q \<in> set ps \<Longrightarrow> find (\<lambda>p. pid p = pid q) ps = Some q"
proof (induction ps)
  case Nil
  then show ?case by simp
next
  case (Cons p ps)
  show ?case
  proof (cases "pid p = pid q")
    case True
    have "q = p"
    proof (rule ccontr)
      assume "q \<noteq> p"
      with Cons.prems(2) have "q \<in> set ps" by simp
      then have "pid q \<in> pid ` set ps" by simp
      with True Cons.prems(1) show False by simp
    qed
    then show ?thesis by simp
  next
    case False
    with Cons.prems(2) have "q \<in> set ps" by auto
    with Cons.IH Cons.prems(1) have "find (\<lambda>p. pid p = pid q) ps = Some q" by simp
    with False show ?thesis by simp
  qed
qed

lemma find_alive_distinct:
  assumes "distinct (map pid ps)" "x \<in> pid ` set (filter alive ps)"
  shows "\<exists>p. find (\<lambda>p. pid p = x) ps = Some p \<and> alive p \<and> pid p = x"
proof -
  from assms(2) obtain q where q: "q \<in> set ps" "alive q" "pid q = x" by auto
  from find_distinct [OF assms(1) q(1)] q show ?thesis by auto
qed

lemma card_alive_ids:
  "distinct (map pid (players s)) \<Longrightarrow> card (alive_ids s) = length (get_alive_players s)"
proof -
  assume "distinct (map pid (players s))"
  then have "distinct (map pid (filter alive (players s)))"
    by (rule distinct_map_filter)
  then show ?thesis
    using distinct_card [of "map pid (filter alive (players s))"]
    by (simp add: alive_ids_def get_alive_players_def)
qed

lemma alive_ids_players: "alive_ids s = pid ` set (filter alive (players s))"
  by (simp add: alive_ids_def get_alive_players_def)


lemma vote_game_simps:
  "players vote_game = players simple_game"
  "round_index vote_game = 0"
  "vote_records vote_game = []"
  "phase vote_game = DAY_VOTE"
  by (simp_all add: vote_game_def discussion_game_def simple_game_def next_phase_def
      next_phase_of_simps)

lemma alive_ids_vote_game:
  "alive_ids vote_game = {''player_0'', ''player_1'', ''player_2'', ''player_3'', ''player_4''}"
  by (simp add: alive_ids_def get_alive_players_def vote_game_simps simple_game_def
      mk_player_def)

lemma round_votes_abstain_example:
  "round_votes vote_game [(''player_0'', ''abstain'', ''unsure'')]
     = [\<lparr>voter_id = ''player_0'', v_target_id = ''abstain'', reason = ''unsure'',
         v_round_index = 0\<rparr>]"
  by (simp add: round_votes_def alive_ids_vote_game vote_game_simps)


lemma threshold_of_4: "threshold_of 4 = 3"
  using threshold_of_exact [of 4] by simp

lemma four_alive_game_simps:
  "players four_alive_game =
     [mk_player ''player_0'' ''Alice'' VILLAGER False,
      mk_player ''player_1'' ''Bob'' MAFIA True,
      mk_player ''player_2'' ''Carol'' DOCTOR True,
      mk_player ''player_3'' ''Dave'' SHERIFF True,
      mk_player ''player_4'' ''Eve'' MAFIA True]"
  "round_index four_alive_game = 0"
  "vote_records four_alive_game = []"
  "events four_alive_game = [mk_event GAME_START 0 NIGHT ''Game started with 5 players.'']"
  by (simp_all add: four_alive_game_def vote_game_simps simple_game_def mark_dead_def
      mk_player_def vote_game_def discussion_game_def next_phase_def next_phase_of_simps)

lemma alive_ids_four_alive_game:
  "alive_ids four_alive_game = {''player_1'', ''player_2'', ''player_3'', ''player_4''}"
  by (simp add: alive_ids_def get_alive_players_def four_alive_game_simps mk_player_def)

lemma length_alive_four_alive_game: "length (get_alive_players four_alive_game) = 4"
  by (simp add: get_alive_players_def four_alive_game_simps mk_player_def)

lemma vote_records_three_votes:
  "vote_records (apply_vote four_alive_game three_votes) =
     [\<lparr>voter_id = ''player_2'', v_target_id = ''player_1'', reason = ''r'', v_round_index = 0\<rparr>,
      \<lparr>voter_id = ''player_3'', v_target_id = ''player_1'', reason = ''r'', v_round_index = 0\<rparr>,
      \<lparr>voter_id = ''player_4'', v_target_id = ''player_1'', reason = ''r'', v_round_index = 0\<rparr>]"
  by (simp add: vote_records_apply_vote alive_ids_four_alive_game four_alive_game_simps
      three_votes_def)


subsection \<open>The night\<close>

lemma sanitize_fields:
  "mafia_target_id (sanitize ids a) =
     (if truthy (mafia_target_id a) \<and> the (mafia_target_id a) \<notin> ids then None
      else mafia_target_id a)"
  "doctor_target_id (sanitize ids a) =
     (if truthy (doctor_target_id a) \<and> the (doctor_target_id a) \<notin> ids then None
      else doctor_target_id a)"
  "sheriff_target_id (sanitize ids a) =
     (if truthy (sheriff_target_id a) \<and> the (sheriff_target_id a) \<notin> ids then None
      else sheriff_target_id a)"
  by (auto simp add: sanitize_def Let_def)

lemma players_apply_night_actions:
  "players (apply_night_actions sh s a) =
     (let m = mafia_target_id (sanitize (alive_ids s) a);
          d = doctor_target_id (sanitize (alive_ids s) a)
      in if truthy m \<and> d \<noteq> m then mark_dead (the m) (players s) else players s)"
  by (simp add: apply_night_actions_def Let_def emit_def)

lemma phase_apply_night_actions: "phase (apply_night_actions sh s a) = DAY_DISCUSSION"
  by (simp add: apply_night_actions_def Let_def emit_def)

lemma events_apply_night_actions:
  "\<exists>pre chk chg. events (apply_night_actions sh s a) = events s @ pre @ chk @ [chg]
     \<and> kind chg = PHASE_CHANGE \<and> (\<forall>e \<in> set chk. kind e = NIGHT_CHECK)
     \<and> pre =
       (let m = mafia_target_id (sanitize (alive_ids s) a);
            d = doctor_target_id (sanitize (alive_ids s) a)
        in (if truthy m then
              (if d \<noteq> m then
                 [(mk_event NIGHT_KILL (round_index s) NIGHT ''Mafia eliminated a player.'')
                    \<lparr>e_target_id := m\<rparr>]
               else [mk_event NIGHT_PROTECT (round_index s) NIGHT
                       ''Doctor protected the mafia target; no one died.''])
            else [])
           @ (if truthy d \<and> \<not> (truthy m \<and> d \<noteq> m) then
                [(mk_event NIGHT_PROTECT (round_index s) NIGHT ''Doctor protected a player.'')
                   \<lparr>e_target_id := d\<rparr>]
              else []))"
  by (simp add: apply_night_actions_def Let_def emit_def mk_event_def)

lemma truthy_Some_iff: "truthy m \<longleftrightarrow> (\<exists>v. m = Some v \<and> v \<noteq> [])"
  by (cases m) auto

lemma get_player_emit [simp]: "get_player (emit s e) x = get_player s x"
  by (simp add: get_player_def)

lemma events_apply_night_actions_explicit:
  "events (apply_night_actions sh s a) =
     events s
     @ kill_events s (mafia_target_id (sanitize (alive_ids s) a))
         (doctor_target_id (sanitize (alive_ids s) a))
     @ check_events s (sheriff_target_id (sanitize (alive_ids s) a))
     @ [mk_event PHASE_CHANGE (round_index s) DAY_DISCUSSION
          (''Day '' @ str_int (round_index s + 1) @ '' '' @ en_dash @ '' discussion phase.'')]"
  by (simp add: apply_night_actions_def Let_def kill_events_def check_events_def)

lemma new_events_apply_night_actions:
  "drop (length (events s)) (events (apply_night_actions sh s a)) =
     kill_events s (mafia_target_id (sanitize (alive_ids s) a))
         (doctor_target_id (sanitize (alive_ids s) a))
     @ check_events s (sheriff_target_id (sanitize (alive_ids s) a))
     @ [mk_event PHASE_CHANGE (round_index s) DAY_DISCUSSION
          (''Day '' @ str_int (round_index s + 1) @ '' '' @ en_dash @ '' discussion phase.'')]"
  by (simp add: events_apply_night_actions_explicit)

lemma kind_mk_event [simp]: "kind (mk_event k r ph msg) = k"
  by (simp add: mk_event_def)

lemma check_events_kind: "e \<in> set (check_events s c) \<Longrightarrow> kind e = NIGHT_CHECK"
  by (auto simp add: check_events_def split: if_splits)

lemma kill_events_kind:
  "e \<in> set (kill_events s m d) \<Longrightarrow> kind e = NIGHT_KILL \<or> kind e = NIGHT_PROTECT"
  by (auto simp add: kill_events_def split: if_splits)

lemma kill_events_kill:
  "m = Some v \<Longrightarrow> v \<noteq> [] \<Longrightarrow> d \<noteq> Some v \<Longrightarrow>
     kill_events s m d =
       [(mk_event NIGHT_KILL (round_index s) NIGHT ''Mafia eliminated a player.'')
          \<lparr>e_target_id := Some v\<rparr>]"
  by (simp add: kill_events_def)

lemma kill_events_protect:
  "m = Some v \<Longrightarrow> v \<noteq> [] \<Longrightarrow> d = Some v \<Longrightarrow>
     kill_events s m d =
       [mk_event NIGHT_PROTECT (round_index s) NIGHT
          ''Doctor protected the mafia target; no one died.'',
        (mk_event NIGHT_PROTECT (round_index s) NIGHT ''Doctor protected a player.'')
          \<lparr>e_target_id := Some v\<rparr>]"
  by (simp add: kill_events_def)

lemma kill_events_no_mafia:
  "\<not> truthy m \<Longrightarrow> e \<in> set (kill_events s m d) \<Longrightarrow> kind e = NIGHT_PROTECT"
  by (auto simp add: kill_events_def split: if_splits)

lemma kill_events_no_doctor:
  "\<not> truthy d \<Longrightarrow> e \<in> set (kill_events s m d) \<Longrightarrow> kind e = NIGHT_KILL"
  by (auto simp add: kill_events_def split: if_splits)

lemma not_alive_sanitized:
  "\<forall>w. mafia_target_id a = Some w \<longrightarrow> w \<notin> ids \<Longrightarrow> \<not> truthy (mafia_target_id (sanitize ids a))"
  "\<forall>w. doctor_target_id a = Some w \<longrightarrow> w \<notin> ids \<Longrightarrow> \<not> truthy (doctor_target_id (sanitize ids a))"
  "\<forall>w. sheriff_target_id a = Some w \<longrightarrow> w \<notin> ids \<Longrightarrow> \<not> truthy (sheriff_target_id (sanitize ids a))"
  by (auto simp add: sanitize_fields truthy_Some_iff)

lemma alive_sanitized:
  "mafia_target_id a = Some v \<Longrightarrow> v \<in> ids \<Longrightarrow> mafia_target_id (sanitize ids a) = Some v"
  "doctor_target_id a = Some v \<Longrightarrow> v \<in> ids \<Longrightarrow> doctor_target_id (sanitize ids a) = Some v"
  "sheriff_target_id a = Some v \<Longrightarrow> v \<in> ids \<Longrightarrow> sheriff_target_id (sanitize ids a) = Some v"
  by (simp_all add: sanitize_fields)

lemma doctor_sanitized_differs:
  "doctor_target_id a \<noteq> Some v \<Longrightarrow> doctor_target_id (sanitize ids a) \<noteq> Some v"
  by (auto simp add: sanitize_fields split: if_splits)

lemma alive_ids_simple_game:
  "alive_ids simple_game = {''player_0'', ''player_1'', ''player_2'', ''player_3'', ''player_4''}"
  by (simp add: alive_ids_def get_alive_players_def simple_game_def mk_player_def)

lemma sanitize_doctor_save: "sanitize (alive_ids simple_game) doctor_save = doctor_save"
  by (simp add: sanitize_def alive_ids_simple_game doctor_save_def Let_def)

lemma events_doctor_save:
  "events (apply_night_actions keep_order simple_game doctor_save) =
     [mk_event GAME_START 0 NIGHT ''Game started with 5 players.'',
      mk_event NIGHT_PROTECT 0 NIGHT ''Doctor protected the mafia target; no one died.'',
      (mk_event NIGHT_PROTECT 0 NIGHT ''Doctor protected a player.'')
         \<lparr>e_target_id := Some ''player_0''\<rparr>,
      mk_event PHASE_CHANGE 0 DAY_DISCUSSION
        (''Day 1 '' @ en_dash @ '' discussion phase.'')]"
  by (simp add: events_apply_night_actions_explicit sanitize_doctor_save kill_events_def
      check_events_def)
     (simp add: doctor_save_def simple_game_def str_int_def digit_char_def)

text \<open>
  Claim C2. \<open>apply_night_actions\<close> ignores every target that is not the id of an alive
  player: for such a mafia target no one dies and no \<open>night_kill\<close> is appended, for such a
  doctor target no \<open>night_protect\<close> is appended, for such a sheriff target no \<open>night_check\<close>
  is appended. When the mafia target is set (a non-empty id, as the source tests it) and
  alive and the doctor target differs from it, the players with that id are marked not alive
  and a \<open>night_kill\<close> event for it is appended; when the doctor target equals it, the player
  list is unchanged, a \<open>night_protect\<close> event is appended and no \<open>night_kill\<close> is. The
  resulting phase is \<open>day_discussion\<close>. Below, \<open>new\<close> is the list of events appended.
\<close>

theorem apply_night_actions_resolution:
  fixes sh :: "int \<Rightarrow> string list \<Rightarrow> string list" and s :: GameState and a :: NightActions
    and v :: string
  defines "s' \<equiv> apply_night_actions sh s a"
  defines "new \<equiv> drop (length (events s)) (events s')"
  shows "phase s' = DAY_DISCUSSION
    \<and> (mafia_target_id a = Some v \<and> v \<noteq> [] \<and> v \<in> alive_ids s \<and> doctor_target_id a \<noteq> Some v \<longrightarrow>
         players s' = map (\<lambda>p. if pid p = v then p\<lparr>alive := False\<rparr> else p) (players s)
         \<and> v \<notin> alive_ids s'
         \<and> (\<exists>e \<in> set new. kind e = NIGHT_KILL \<and> e_target_id e = Some v))
    \<and> (mafia_target_id a = Some v \<and> v \<noteq> [] \<and> v \<in> alive_ids s \<and> doctor_target_id a = Some v \<longrightarrow>
         players s' = players s
         \<and> (\<exists>e \<in> set new. kind e = NIGHT_PROTECT)
         \<and> (\<forall>e \<in> set new. kind e \<noteq> NIGHT_KILL))
    \<and> ((\<forall>w. mafia_target_id a = Some w \<longrightarrow> w \<notin> alive_ids s) \<longrightarrow>
         players s' = players s \<and> (\<forall>e \<in> set new. kind e \<noteq> NIGHT_KILL))
    \<and> ((\<forall>w. doctor_target_id a = Some w \<longrightarrow> w \<notin> alive_ids s) \<longrightarrow>
         (\<forall>e \<in> set new. kind e \<noteq> NIGHT_PROTECT))
    \<and> ((\<forall>w. sheriff_target_id a = Some w \<longrightarrow> w \<notin> alive_ids s) \<longrightarrow>
         (\<forall>e \<in> set new. kind e \<noteq> NIGHT_CHECK))"
proof -
  let ?m = "mafia_target_id (sanitize (alive_ids s) a)"
  let ?d = "doctor_target_id (sanitize (alive_ids s) a)"
  let ?c = "sheriff_target_id (sanitize (alive_ids s) a)"
  let ?chg = "mk_event PHASE_CHANGE (round_index s) DAY_DISCUSSION
          (''Day '' @ str_int (round_index s + 1) @ '' '' @ en_dash @ '' discussion phase.'')"
  have new: "new = kill_events s ?m ?d @ check_events s ?c @ [?chg]"
    unfolding new_def s'_def by (rule new_events_apply_night_actions)
  have pl: "players s' = (if truthy ?m \<and> ?d \<noteq> ?m then mark_dead (the ?m) (players s) else players s)"
    unfolding s'_def by (simp add: players_apply_night_actions Let_def)
  have c1: "phase s' = DAY_DISCUSSION"
    unfolding s'_def by (rule phase_apply_night_actions)
  have c2: "players s' = map (\<lambda>p. if pid p = v then p\<lparr>alive := False\<rparr> else p) (players s)
         \<and> v \<notin> alive_ids s'
         \<and> (\<exists>e \<in> set new. kind e = NIGHT_KILL \<and> e_target_id e = Some v)"
    if h: "mafia_target_id a = Some v" "v \<noteq> []" "v \<in> alive_ids s" "doctor_target_id a \<noteq> Some v"
  proof -
    have m: "?m = Some v" using h(1,3) by (rule alive_sanitized)
    have d: "?d \<noteq> Some v" using h(4) by (rule doctor_sanitized_differs)
    have p: "players s' = mark_dead v (players s)"
      using m d h(2) by (simp add: pl)
    have "alive_ids s' = alive_ids s - {v}"
      unfolding alive_ids_players p by (rule alive_ids_mark_dead)
    moreover have "kill_events s ?m ?d =
       [(mk_event NIGHT_KILL (round_index s) NIGHT ''Mafia eliminated a player.'')
          \<lparr>e_target_id := Some v\<rparr>]"
      using m h(2) d by (rule kill_events_kill)
    ultimately show ?thesis
      using p by (simp add: new mark_dead_def)
  qed
  have c3: "players s' = players s
         \<and> (\<exists>e \<in> set new. kind e = NIGHT_PROTECT)
         \<and> (\<forall>e \<in> set new. kind e \<noteq> NIGHT_KILL)"
    if h: "mafia_target_id a = Some v" "v \<noteq> []" "v \<in> alive_ids s" "doctor_target_id a = Some v"
  proof -
    have m: "?m = Some v" using h(1,3) by (rule alive_sanitized)
    have d: "?d = Some v" using h(4,3) by (rule alive_sanitized)
    have k: "kill_events s ?m ?d =
       [mk_event NIGHT_PROTECT (round_index s) NIGHT
          ''Doctor protected the mafia target; no one died.'',
        (mk_event NIGHT_PROTECT (round_index s) NIGHT ''Doctor protected a player.'')
          \<lparr>e_target_id := Some v\<rparr>]"
      using m h(2) d by (rule kill_events_protect)
    have "players s' = players s" using m d by (simp add: pl)
    moreover have "\<exists>e \<in> set new. kind e = NIGHT_PROTECT"
      by (simp add: new k)
    moreover have "\<forall>e \<in> set new. kind e \<noteq> NIGHT_KILL"
      using check_events_kind [of _ s ?c] by (auto simp add: new k)
    ultimately show ?thesis by blast
  qed
  have c4: "players s' = players s \<and> (\<forall>e \<in> set new. kind e \<noteq> NIGHT_KILL)"
    if h: "\<forall>w. mafia_target_id a = Some w \<longrightarrow> w \<notin> alive_ids s"
  proof -
    have m: "\<not> truthy ?m" using h by (rule not_alive_sanitized)
    then have "players s' = players s" by (simp add: pl)
    moreover have "\<forall>e \<in> set new. kind e \<noteq> NIGHT_KILL"
      using check_events_kind [of _ s ?c] kill_events_no_mafia [OF m, of _ s ?d]
      by (auto simp add: new)
    ultimately show ?thesis by blast
  qed
  have c5: "\<forall>e \<in> set new. kind e \<noteq> NIGHT_PROTECT"
    if h: "\<forall>w. doctor_target_id a = Some w \<longrightarrow> w \<notin> alive_ids s"
  proof -
    have d: "\<not> truthy ?d" using h by (rule not_alive_sanitized)
    show ?thesis
      using check_events_kind [of _ s ?c] kill_events_no_doctor [OF d, of _ s ?m]
      by (auto simp add: new)
  qed
  have c6: "\<forall>e \<in> set new. kind e \<noteq> NIGHT_CHECK"
    if h: "\<forall>w. sheriff_target_id a = Some w \<longrightarrow> w \<notin> alive_ids s"
  proof -
    have c: "\<not> truthy ?c" using h by (rule not_alive_sanitized)
    then have "check_events s ?c = []" by (simp add: check_events_def)
    then show ?thesis
      using kill_events_kind [of _ s ?m ?d] by (fastforce simp add: new)
  qed
  show ?thesis
    using c1 c2 c3 c4 c5 c6 by blast
qed


text \<open>
  The doctor-save scenario: in the five-player game with mafia and doctor both on player_0,
  all five stay alive and the log is game start, two \<open>night_protect\<close> events (the second
  with target player_0) and the phase change.
\<close>

theorem apply_night_actions_resolution_witness:
  "mafia_target_id doctor_save = Some ''player_0''
   \<and> doctor_target_id doctor_save = Some ''player_0''
   \<and> ''player_0'' \<in> alive_ids simple_game
   \<and> phase (apply_night_actions keep_order simple_game doctor_save) = DAY_DISCUSSION
   \<and> map alive (players (apply_night_actions keep_order simple_game doctor_save))
       = [True, True, True, True, True]
   \<and> map kind (events (apply_night_actions keep_order simple_game doctor_save))
       = [GAME_START, NIGHT_PROTECT, NIGHT_PROTECT, PHASE_CHANGE]
   \<and> map e_target_id (events (apply_night_actions keep_order simple_game doctor_save))
       = [None, None, Some ''player_0'', None]"
proof -
  have h: "mafia_target_id doctor_save = Some ''player_0''"
    "doctor_target_id doctor_save = Some ''player_0''"
    "''player_0'' \<in> alive_ids simple_game"
    by (simp_all add: doctor_save_def alive_ids_simple_game)
  have p: "players (apply_night_actions keep_order simple_game doctor_save) = players simple_game"
    using h apply_night_actions_resolution [of keep_order simple_game doctor_save "''player_0''"]
    by simp
  show ?thesis
    using h apply_night_actions_resolution [of keep_order simple_game doctor_save "''player_0''"]
    by (simp add: p events_doctor_save mk_event_def)
       (simp add: simple_game_def mk_player_def)
qed


subsection \<open>The day vote\<close>

text \<open>
  Claim C1. Let the state have pairwise distinct player ids, no alive player with the empty
  id, and let every vote already recorded for the current round target \<open>abstain\<close> or an alive
  player (all three hold in every state the engine reaches from \<open>start_game\<close>). Then
  \<open>apply_vote\<close> makes at most one alive player not alive and revives no one, and it
  eliminates \<open>x\<close> exactly when, among the targets of this round's recorded votes other than
  \<open>abstain\<close>, \<open>x\<close> occurs, every other target occurs strictly less often, and the number of
  votes for \<open>x\<close> is at least \<open>math.ceil(0.51 * n)\<close> for the number \<open>n\<close> of alive players,
  which \<open>threshold_of\<close> computes in double precision as the source does; for fewer than
  \<open>2^32\<close> alive players this is the exact ceiling of \<open>51 * n / 100\<close>. On elimination the
  player \<open>x\<close> is the same player marked not alive, and an \<open>eliminated\<close> event for \<open>x\<close> with the
  role of \<open>x\<close> under the key \<open>role\<close> of \<open>extra\<close> is among the events appended.
\<close>

theorem apply_vote_elimination:
  fixes s :: GameState and votes :: "(string \<times> string \<times> string) list" and x :: string
  assumes ids: "distinct (map pid (players s))"
      and nonempty: "[] \<notin> alive_ids s"
      and prior: "\<forall>v \<in> set (vote_records s). v_round_index v = round_index s \<longrightarrow>
                    v_target_id v = ''abstain'' \<or> v_target_id v \<in> alive_ids s"
  defines "s' \<equiv> apply_vote s votes"
  defines "ts \<equiv> map v_target_id
                  (filter (\<lambda>v. v_round_index v = round_index s \<and> v_target_id v \<noteq> ''abstain'')
                     (vote_records s'))"
  shows "length (get_alive_players s) \<le> length (get_alive_players s') + 1
       \<and> alive_ids s' \<subseteq> alive_ids s
       \<and> ((x \<in> alive_ids s \<and> x \<notin> alive_ids s') \<longleftrightarrow>
            (x \<in> set ts \<and> (\<forall>y \<in> set ts. y \<noteq> x \<longrightarrow> count_list ts y < count_list ts x)
             \<and> threshold_of (length (get_alive_players s)) \<le> int (count_list ts x)))
       \<and> (x \<in> alive_ids s \<and> x \<notin> alive_ids s' \<longrightarrow>
            (\<exists>p. get_player s x = Some p \<and> get_player s' x = Some (p\<lparr>alive := False\<rparr>)
                \<and> (\<exists>e \<in> set (drop (length (events s)) (events s')).
                      kind e = ELIMINATED \<and> e_player_id e = Some x
                      \<and> extra e = Some [(''role'', Some (role_value (role p)))])))
       \<and> (length (get_alive_players s) < 2 ^ 32 \<longrightarrow>
            threshold_of (length (get_alive_players s))
              = (51 * int (length (get_alive_players s)) + 99) div 100)"
proof -
  have exact: "length (get_alive_players s) < 2 ^ 32 \<longrightarrow>
      threshold_of (length (get_alive_players s))
        = (51 * int (length (get_alive_players s)) + 99) div 100"
    using threshold_of_exact [of "length (get_alive_players s)"] by blast
  have ts: "ts = counted_targets s votes"
    by (simp add: ts_def s'_def counted_targets_observed)
  have card: "card (alive_ids s) = length (get_alive_players s)"
    using ids by (rule card_alive_ids)
  have spec: "\<And>z. eliminated_id s votes = Some z \<longleftrightarrow>
      (z \<in> set ts \<and> (\<forall>y \<in> set ts. y \<noteq> z \<longrightarrow> count_list ts y < count_list ts z)
       \<and> threshold_of (length (get_alive_players s)) \<le> int (count_list ts z))"
    by (simp add: eliminated_id_iff unique_max_def ts card)
  have sub: "set ts \<subseteq> alive_ids s"
    unfolding ts using prior by (rule counted_targets_alive)
  show ?thesis
  proof (cases "round_votes s votes \<noteq> [] \<and> eliminated_id s votes \<noteq> None")
    case False
    then have same: "players s' = players s"
      by (auto simp add: s'_def players_apply_vote)
    have none: "eliminated_id s votes = None"
    proof (cases "round_votes s votes = []")
      case True
      then have "counted_targets s votes = []" by (simp add: counted_targets_def)
      then show ?thesis by (simp add: eliminated_id_def)
    next
      case False
      with \<open>\<not> (round_votes s votes \<noteq> [] \<and> eliminated_id s votes \<noteq> None)\<close>
      show ?thesis by simp
    qed
    have al: "alive_ids s' = alive_ids s" "get_alive_players s' = get_alive_players s"
      by (simp_all add: alive_ids_def get_alive_players_def same)
    have "\<not> (x \<in> set ts \<and> (\<forall>y \<in> set ts. y \<noteq> x \<longrightarrow> count_list ts y < count_list ts x)
       \<and> threshold_of (length (get_alive_players s)) \<le> int (count_list ts x))"
      using spec [of x] none by simp
    then show ?thesis using exact by (simp add: al)
  next
    case True
    then obtain y where y: "eliminated_id s votes = Some y" and rv: "round_votes s votes \<noteq> []"
      by auto
    from y have yts: "y \<in> set ts" using spec [of y] by simp
    with sub have yal: "y \<in> alive_ids s" by auto
    with nonempty have yne: "y \<noteq> []" by auto
    have pl: "players s' = mark_dead y (players s)"
      using y rv yne by (simp add: s'_def players_apply_vote)
    have al: "alive_ids s' = alive_ids s - {y}"
      unfolding alive_ids_players pl by (rule alive_ids_mark_dead)
    have len: "length (get_alive_players s) \<le> length (get_alive_players s') + 1"
      using length_alive_mark_dead [OF ids, of y] by (simp add: get_alive_players_def pl)
    have lhs: "(x \<in> alive_ids s \<and> x \<notin> alive_ids s') \<longleftrightarrow> x = y"
      using yal by (auto simp add: al)
    have rhs: "(x \<in> set ts \<and> (\<forall>y \<in> set ts. y \<noteq> x \<longrightarrow> count_list ts y < count_list ts x)
       \<and> threshold_of (length (get_alive_players s)) \<le> int (count_list ts x)) \<longleftrightarrow> x = y"
      using spec [of x] y by auto
    from find_alive_distinct [OF ids, of y] yal obtain p where
      p: "get_player s y = Some p" "alive p" "pid p = y"
      by (auto simp add: get_player_def alive_ids_players)
    have p': "get_player s' y = Some (p\<lparr>alive := False\<rparr>)"
      using p(1) by (simp add: get_player_def pl find_mark_dead)
    have ev: "drop (length (events s)) (events s') =
       [(mk_event ELIMINATED (round_index s) DAY_VOTE (name p @ '' was eliminated by vote.''))
          \<lparr>e_player_id := Some y, extra := Some [(''role'', Some (role_value (role p)))]\<rparr>,
        mk_event PHASE_CHANGE (round_index s + 1) NIGHT
          (''Night '' @ str_int (round_index s + 2) @ ''.'')]"
      unfolding s'_def events_apply_vote_eliminated [OF rv y yne p(1)] by simp
    have "\<exists>e \<in> set (drop (length (events s)) (events s')).
            kind e = ELIMINATED \<and> e_player_id e = Some y
            \<and> extra e = Some [(''role'', Some (role_value (role p)))]"
      unfolding ev by (simp add: mk_event_def)
    with p p' have last: "\<exists>p. get_player s y = Some p \<and> get_player s' y = Some (p\<lparr>alive := False\<rparr>)
                \<and> (\<exists>e \<in> set (drop (length (events s)) (events s')).
                      kind e = ELIMINATED \<and> e_player_id e = Some y
                      \<and> extra e = Some [(''role'', Some (role_value (role p)))])"
      by blast
    show ?thesis
      using len al lhs rhs last exact by auto
  qed
qed

theorem apply_vote_elimination_witness:
  "distinct (map pid (players four_alive_game))
   \<and> [] \<notin> alive_ids four_alive_game
   \<and> length (get_alive_players four_alive_game) = 4
   \<and> threshold_of 4 = 3
   \<and> ''player_1'' \<in> alive_ids four_alive_game
   \<and> ''player_1'' \<notin> alive_ids (apply_vote four_alive_game three_votes)
   \<and> length (get_alive_players (apply_vote four_alive_game three_votes)) \<ge> 3"
proof -
  have h1: "distinct (map pid (players four_alive_game))"
    by (simp add: four_alive_game_simps mk_player_def)
  have h2: "[] \<notin> alive_ids four_alive_game"
    by (simp add: alive_ids_four_alive_game)
  have h3: "\<forall>v \<in> set (vote_records four_alive_game).
              v_round_index v = round_index four_alive_game \<longrightarrow>
              v_target_id v = ''abstain'' \<or> v_target_id v \<in> alive_ids four_alive_game"
    by (simp add: four_alive_game_simps)
  show ?thesis
    using h1 h2 apply_vote_elimination [OF h1 h2 h3, of three_votes "''player_1''"]
    by (simp add: vote_records_three_votes four_alive_game_simps(2)
        length_alive_four_alive_game threshold_of_4 alive_ids_four_alive_game)
qed

text \<open>
  Claim C10. When at least one vote is recorded for the round and every recorded vote of the
  round is an abstention, \<open>apply_vote\<close> changes no player, moves to night, adds one to
  \<open>round_index\<close> and appends exactly one event, the regular phase change with the message
  \<open>Night k.\<close>, not the message \<open>No votes; night falls.\<close> of the branch without votes.
\<close>

theorem all_abstain_round:
  assumes "round_votes s votes \<noteq> []"
      and "\<forall>v \<in> set (round_votes s votes). v_target_id v = ''abstain''"
  shows "players (apply_vote s votes) = players s
       \<and> phase (apply_vote s votes) = NIGHT
       \<and> round_index (apply_vote s votes) = round_index s + 1
       \<and> events (apply_vote s votes) = events s @
            [mk_event PHASE_CHANGE (round_index s + 1) NIGHT
               (''Night '' @ str_int (round_index s + 2) @ ''.'')]
       \<and> message (last (events (apply_vote s votes))) \<noteq> ''No votes; night falls.''
       \<and> round_votes s votes
            = filter (\<lambda>v. v_round_index v = round_index s) (vote_records (apply_vote s votes))"
proof -
  from assms(2) have "filter (\<lambda>v. v_target_id v \<noteq> ''abstain'') (round_votes s votes) = []"
    by (simp add: filter_empty_conv)
  then have "counted_targets s votes = []"
    by (simp add: counted_targets_def)
  then have e: "eliminated_id s votes = None"
    by (rule eliminated_id_no_targets)
  show ?thesis
    using assms(1) e
    by (simp add: apply_vote_def Let_def mk_event_def round_votes_def emit_def add.commute)
qed

theorem all_abstain_round_witness:
  "round_votes vote_game [(''player_0'', ''abstain'', ''unsure'')] \<noteq> []
   \<and> players (apply_vote vote_game [(''player_0'', ''abstain'', ''unsure'')])
       = players vote_game
   \<and> phase (apply_vote vote_game [(''player_0'', ''abstain'', ''unsure'')]) = NIGHT
   \<and> round_index (apply_vote vote_game [(''player_0'', ''abstain'', ''unsure'')]) = 1
   \<and> message (last (events (apply_vote vote_game [(''player_0'', ''abstain'', ''unsure'')])))
       = ''Night 2.''"
proof -
  have h1: "round_votes vote_game [(''player_0'', ''abstain'', ''unsure'')] \<noteq> []"
    by (simp add: round_votes_abstain_example)
  have h2: "\<forall>v \<in> set (round_votes vote_game [(''player_0'', ''abstain'', ''unsure'')]).
              v_target_id v = ''abstain''"
    by (simp add: round_votes_abstain_example)
  show ?thesis
    using h1 all_abstain_round [OF h1 h2]
    by (simp add: vote_game_simps mk_event_def str_int_def digit_char_def)
qed

subsection \<open>The public projection\<close>

text \<open>
  Claim C8. The public projection keeps the players in order with their ids and alive flags.
  Without the spectator flag the role of a player whose alive flag is true is \<open>None\<close> and
  the role of a player whose alive flag is false is the player's role string; with the
  spectator flag every player's role string appears.
\<close>

theorem public_projection_roles:
  fixes s :: GameState and w :: bool and actor :: "string option"
    and pv pn hs :: "string list option" and pend :: "(string \<times> string \<times> string) list option"
  defines "pub \<equiv> \<lambda>spectate. r_players (game_state_to_public s w actor pv pn hs pend spectate)"
  shows "length (pub False) = length (players s) \<and> length (pub True) = length (players s)
    \<and> (\<forall>i < length (players s).
          pp_id (pub False ! i) = pid (players s ! i)
          \<and> pp_alive (pub False ! i) = alive (players s ! i)
          \<and> (alive (players s ! i) \<longrightarrow> pp_role (pub False ! i) = None)
          \<and> (\<not> alive (players s ! i) \<longrightarrow>
                pp_role (pub False ! i) = Some (role_value (role (players s ! i))))
          \<and> pp_role (pub True ! i) = Some (role_value (role (players s ! i))))"
  by (simp add: pub_def game_state_to_public_def Let_def)

theorem public_projection_roles_witness:
  "map pp_role (r_players (game_state_to_public four_alive_game False None None None None None False))
     = [Some ''villager'', None, None, None, None]
   \<and> map pp_role (r_players (game_state_to_public four_alive_game False None None None None None True))
     = [Some ''villager'', Some ''mafia'', Some ''doctor'', Some ''sheriff'', Some ''mafia'']"
  using public_projection_roles [of four_alive_game False None None None None None]
  by (simp add: game_state_to_public_def Let_def four_alive_game_simps mk_player_def)

subsection \<open>The orchestrator\<close>

lemma simple_game_roles:
  "get_players_by_role simple_game MAFIA =
     [mk_player ''player_1'' ''Bob'' MAFIA True, mk_player ''player_4'' ''Eve'' MAFIA True]"
  "get_players_by_role simple_game DOCTOR = [mk_player ''player_2'' ''Carol'' DOCTOR True]"
  "get_players_by_role simple_game SHERIFF = [mk_player ''player_3'' ''Dave'' SHERIFF True]"
  "map pid (get_alive_players simple_game) =
     [''player_0'', ''player_1'', ''player_2'', ''player_3'', ''player_4'']"
  by (simp_all add: get_players_by_role_def get_alive_players_def simple_game_def mk_player_def)

lemma run_night_human_mafia:
  "\<exists>s3. run_night failing_vote_env simple_game {''player_1''} =
     Inr (s3, Some \<lparr>mafia_target_id = None, doctor_target_id = Some ''player_0'',
                     sheriff_target_id = Some ''player_0''\<rparr>, [''player_1''])"
  by (simp add: run_night_def simple_game_roles Let_def night_mafia_def night_doctor_def
      night_sheriff_def failing_vote_env_def night_target_def mk_player_def)

lemma not_over_simple_game: "\<not> is_game_over simple_game"
  by (simp add: is_game_over_def mafia_alive_def town_alive_def len_def get_alive_players_def
      simple_game_def mk_player_def)

lemma step_game_human_mafia:
  "step_game failing_vote_env simple_game {''player_1''} None [] =
     Inr (simple_game,
       Some \<lparr>waiting_for_human = True, current_actor_id = Some ''player_1'',
             pending_human_night_ids = [''player_1''], pending_human_vote_ids = [],
             night_actions = Some \<lparr>mafia_target_id = None,
                                    doctor_target_id = Some ''player_0'',
                                    sheriff_target_id = Some ''player_0''\<rparr>,
             pending_votes = None\<rparr>)"
proof -
  obtain s3 where "run_night failing_vote_env simple_game {''player_1''} =
     Inr (s3, Some \<lparr>mafia_target_id = None, doctor_target_id = Some ''player_0'',
                     sheriff_target_id = Some ''player_0''\<rparr>, [''player_1''])"
    using run_night_human_mafia by blast
  moreover have "phase simple_game = NIGHT" by (simp add: simple_game_def)
  ultimately show ?thesis
    using not_over_simple_game by (simp add: step_game_def)
qed

lemma vote_order_index_apply_vote:
  "vote_order_index (apply_vote s votes) = vote_order_index s"
  by (simp add: apply_vote_def Let_def emit_def)

lemma vote_game_cursor:
  "vote_order vote_game = [''player_2'', ''player_1'', ''player_4'', ''player_0'', ''player_3'']"
  "vote_order_index vote_game = 0"
  by (simp_all add: vote_game_def discussion_game_def simple_game_def next_phase_def
      next_phase_of_simps)

lemma next_voter_vote_game:
  "get_next_voter vote_game = Some (mk_player ''player_2'' ''Carol'' DOCTOR True)"
  by (simp add: get_next_voter_def vote_game_simps vote_game_cursor len_def get_player_def
      simple_game_def mk_player_def)

lemma run_vote_turn_failing:
  "run_vote_turn failing_vote_env vote_game [] {} =
     Inr (advance_vote_order_index vote_game, [(''player_2'', ''abstain'', ''Abstain'')], [])"
  by (simp add: run_vote_turn_def Let_def next_voter_vote_game vote_phase_done_def
      vote_game_cursor len_def advance_vote_order_index_def failing_vote_env_def mk_player_def)

text \<open>
  Claim C6. When \<open>step_game\<close> in the night phase returns a pause with a non-empty list of
  pending human night ids, the state it returns is the input state.
\<close>

theorem step_game_night_pause_keeps_state:
  assumes "phase s = NIGHT"
      and "step_game env s human mx pend = Inr (s', Some w)"
      and "pending_human_night_ids w \<noteq> []"
  shows "s' = s"
  using assms
  by (auto simp add: step_game_def split: if_splits sum.splits prod.splits)

text \<open>
  In the five-player game with player_1, the first mafia player, human, the step pauses
  for player_1 and returns the game unchanged, with the targets the doctor and the sheriff
  have chosen kept in the pause.
\<close>

theorem step_game_night_pause_keeps_state_witness:
  "phase simple_game = NIGHT
   \<and> step_game failing_vote_env simple_game {''player_1''} None [] =
     Inr (simple_game,
       Some \<lparr>waiting_for_human = True, current_actor_id = Some ''player_1'',
             pending_human_night_ids = [''player_1''], pending_human_vote_ids = [],
             night_actions = Some \<lparr>mafia_target_id = None,
                                    doctor_target_id = Some ''player_0'',
                                    sheriff_target_id = Some ''player_0''\<rparr>,
             pending_votes = None\<rparr>)"
proof -
  have h1: "phase simple_game = NIGHT" by (simp add: simple_game_def)
  have h3: "pending_human_night_ids
      \<lparr>waiting_for_human = True, current_actor_id = Some ''player_1'',
       pending_human_night_ids = [''player_1''], pending_human_vote_ids = [],
       night_actions = Some \<lparr>mafia_target_id = None, doctor_target_id = Some ''player_0'',
                              sheriff_target_id = Some ''player_0''\<rparr>,
       pending_votes = None\<rparr> \<noteq> []" by simp
  show ?thesis
    using h1 step_game_human_mafia
      step_game_night_pause_keeps_state [OF h1 step_game_human_mafia h3]
    by simp
qed

text \<open>
  Claim C7, as amended. When the next voter is an AI player, model and prompt were built and the
  vote agent raises, \<open>run_vote_turn\<close> returns normally: the vote
  \<open>(voter, abstain, Abstain)\<close>, whose reason is the string \<open>Abstain\<close>, is appended to the
  collected votes, the vote cursor of the returned state is one further, and the votes are
  applied when the cursor has reached the end of the vote order.
\<close>

theorem run_vote_turn_decider_raises:
  assumes "\<not> vote_phase_done s"
      and "get_next_voter s = Some voter"
      and "pid voter \<notin> human"
      and "setup_ok env (pid voter)"
      and "vote_agent env (pid voter) s
             (filter (\<lambda>i. i \<noteq> pid voter) (map pid (get_alive_players s)) @ [''abstain''])
           = Raises"
  shows "run_vote_turn env s votes human =
           (if vote_phase_done (advance_vote_order_index s)
            then Inr (apply_vote (advance_vote_order_index s)
                        (votes @ [(pid voter, ''abstain'', ''Abstain'')]), [], [])
            else Inr (advance_vote_order_index s,
                      votes @ [(pid voter, ''abstain'', ''Abstain'')], []))
       \<and> (\<exists>s' vs. run_vote_turn env s votes human = Inr (s', vs, [])
              \<and> vote_order_index s' = vote_order_index s + 1)"
proof -
  have r: "run_vote_turn env s votes human =
           (if vote_phase_done (advance_vote_order_index s)
            then Inr (apply_vote (advance_vote_order_index s)
                        (votes @ [(pid voter, ''abstain'', ''Abstain'')]), [], [])
            else Inr (advance_vote_order_index s,
                      votes @ [(pid voter, ''abstain'', ''Abstain'')], []))"
    using assms by (simp add: run_vote_turn_def Let_def)
  have i: "vote_order_index (advance_vote_order_index s) = vote_order_index s + 1"
    by (simp add: advance_vote_order_index_def)
  show ?thesis
  proof (cases "vote_phase_done (advance_vote_order_index s)")
    case True
    then show ?thesis using r i by (simp add: vote_order_index_apply_vote)
  next
    case False
    then show ?thesis using r i by simp
  qed
qed

theorem run_vote_turn_decider_raises_witness:
  "\<not> vote_phase_done vote_game
   \<and> get_next_voter vote_game = Some (mk_player ''player_2'' ''Carol'' DOCTOR True)
   \<and> run_vote_turn failing_vote_env vote_game [] {} =
       Inr (advance_vote_order_index vote_game, [(''player_2'', ''abstain'', ''Abstain'')], [])
   \<and> vote_order_index (advance_vote_order_index vote_game) = 1"
proof -
  have h1: "\<not> vote_phase_done vote_game"
    by (simp add: vote_phase_done_def vote_game_cursor len_def)
  have h2: "get_next_voter vote_game = Some (mk_player ''player_2'' ''Carol'' DOCTOR True)"
    by (rule next_voter_vote_game)
  have h3: "pid (mk_player ''player_2'' ''Carol'' DOCTOR True) \<notin> {}" by simp
  have h4: "setup_ok failing_vote_env (pid (mk_player ''player_2'' ''Carol'' DOCTOR True))"
    by (simp add: failing_vote_env_def)
  have h5: "vote_agent failing_vote_env (pid (mk_player ''player_2'' ''Carol'' DOCTOR True))
      vote_game
      (filter (\<lambda>i. i \<noteq> pid (mk_player ''player_2'' ''Carol'' DOCTOR True))
         (map pid (get_alive_players vote_game)) @ [''abstain'']) = Raises"
    by (simp add: failing_vote_env_def)
  have nd: "\<not> vote_phase_done (advance_vote_order_index vote_game)"
    by (simp add: vote_phase_done_def vote_game_cursor len_def advance_vote_order_index_def)
  show ?thesis
    using h1 h2 nd run_vote_turn_decider_raises [OF h1 h2 h3 h4 h5, of "[]"]
    by (simp add: mk_player_def advance_vote_order_index_def vote_game_cursor)
qed

text \<open>
  The fallback vote does not carry an empty reason: with a raising vote agent the first
  voter of the example game is recorded with the reason \<open>Abstain\<close>.
\<close>

theorem fallback_vote_reason_counterexample:
  "run_vote_turn failing_vote_env vote_game [] {} =
     Inr (advance_vote_order_index vote_game, [(''player_2'', ''abstain'', ''Abstain'')], [])
   \<and> run_vote_turn failing_vote_env vote_game [] {} \<noteq>
     Inr (advance_vote_order_index vote_game, [(''player_2'', ''abstain'', [])], [])"
  by (simp add: run_vote_turn_failing)


end
